theory Spec2Isabelle
  imports Complex_Main "HOL-Library.Word"
begin

section \<open>Pearson's chi-square test of \<open>chi2.py\<close>\<close>

text \<open>
  A shallow embedding of \<open>src/python/python/chi2.py\<close>: the class \<open>ChiSquareTest\<close>
  (\<open>__init__\<close>, \<open>tabulate_histogram\<close>, \<open>tabulate_pdf\<close>, \<open>run\<close>) and the three domain
  adapters \<open>LineDomain\<close>, \<open>PlanarDomain\<close> and \<open>SphericalDomain\<close>.

  Numbers. Python's \<open>int\<close> is \<open>int\<close>. The components of \<open>ScalarVector2u\<close> and
  \<open>Vector2u\<close> are 32-bit unsigned integers and are modelled as \<open>32 word\<close>, so that
  sums and products wrap around as they do in the arrays. Floating-point numbers are
  idealised: a finite float is a \<open>real\<close> and arithmetic on it is exact (no rounding, no
  overflow), except that the conversion of the grid resolution to single precision in
  \<open>tabulate_histogram\<close> is rounded as the hardware rounds it. Where the code itself
  asks whether a float is finite (the p-value in \<open>run\<close>) the value is a \<open>pyfloat\<close>,
  which adds the two infinities and NaN.
\<close>

subsection \<open>Floats, errors and messages\<close>

datatype pyfloat = Fin real | PosInf | NegInf | NaN

text \<open>\<open>ek.isfinite\<close>.\<close>

fun isfinite :: "pyfloat \<Rightarrow> bool" where
  "isfinite (Fin r) = True"
| "isfinite PosInf = False"
| "isfinite NegInf = False"
| "isfinite NaN = False"

text \<open>\<open>a < b\<close> for a float \<open>a\<close> and a finite float \<open>b\<close>: false whenever \<open>a\<close> is NaN.\<close>

fun float_less :: "pyfloat \<Rightarrow> real \<Rightarrow> bool" where
  "float_less (Fin r) b = (r < b)"
| "float_less PosInf b = False"
| "float_less NegInf b = True"
| "float_less NaN b = False"

text \<open>\<open>a >= 0\<close> for a float \<open>a\<close>: false for NaN, so that \<open>not a >= 0\<close> holds of NaN.\<close>

fun float_ge_zero :: "pyfloat \<Rightarrow> bool" where
  "float_ge_zero (Fin r) = (0 \<le> r)"
| "float_ge_zero PosInf = True"
| "float_ge_zero NegInf = False"
| "float_ge_zero NaN = False"

text \<open>\<open>1 - a\<close> and \<open>a / 2\<close> on floats.\<close>

fun one_minus :: "pyfloat \<Rightarrow> pyfloat" where
  "one_minus (Fin r) = Fin (1 - r)"
| "one_minus PosInf = NegInf"
| "one_minus NegInf = PosInf"
| "one_minus NaN = NaN"

fun halve :: "pyfloat \<Rightarrow> pyfloat" where
  "halve (Fin r) = Fin (r / 2)"
| "halve x = x"

text \<open>
  The exceptions the modelled code can raise. \<open>ResNotOdd\<close> and \<open>IresTooSmall\<close> are the
  two \<open>Exception\<close>s of \<open>__init__\<close>; \<open>TypeError\<close> is raised when an integer does not fit
  the unsigned 32-bit component of \<open>ScalarVector2u\<close> and when a float is compared with
  a complex number; \<open>OutOfBounds\<close> stands for a \<open>scatter_add\<close> whose index lies outside
  the target array (undefined behaviour of the native code); \<open>External\<close> is an exception
  raised inside a function that the module imports (\<open>rlgamma\<close>).
\<close>

datatype error =
    ResNotOdd | IresTooSmall | TypeError | ZeroDivisionError | IndexError
  | OutOfBounds | External

text \<open>A value of type \<open>error + 'a\<close> is \<open>Inl e\<close> for a raised \<open>e\<close>, \<open>Inr v\<close> for a result.\<close>

definition bind_result :: "error + 'a \<Rightarrow> ('a \<Rightarrow> error + 'b) \<Rightarrow> error + 'b" where
  "bind_result m f = (case m of Inl e \<Rightarrow> Inl e | Inr v \<Rightarrow> f v)"

text \<open>
  The result of Python's \<open>**\<close> on two floats is a float or, for a negative base and a
  fractional exponent, a complex number.
\<close>

datatype level = RealLevel real | ComplexLevel

text \<open>
  The lines that \<open>_log\<close> appends to \<open>messages\<close>, one constructor per call site, with the
  numbers the format string prints.
\<close>

datatype message =
    MsgOutsideDomain "(real \<times> real) list"
  | MsgNegativeWeights pyfloat
  | MsgWeightSum real
  | MsgNegativePdf pyfloat
  | MsgPdfSum real
  | MsgDofTooLow
  | MsgZeroExpected
  | MsgPooled int int
  | MsgStatistic pyfloat int
  | MsgNotRunning
  | MsgRejected pyfloat level
  | MsgAccepted pyfloat level

subsection \<open>Bounding boxes and domain adapters\<close>

text \<open>\<open>ScalarBoundingBox2f\<close>: the corners \<open>min\<close> and \<open>max\<close>; \<open>extents\<close> is \<open>max - min\<close>.\<close>

record bbox =
  bmin :: "real \<times> real"
  bmax :: "real \<times> real"

definition extents :: "bbox \<Rightarrow> real \<times> real" where
  "extents b = (fst (bmax b) - fst (bmin b), snd (bmax b) - snd (bmin b))"

text \<open>
  The interface the three adapter classes implement: \<open>bounds()\<close>, \<open>aspect()\<close>,
  \<open>map_forward\<close> and \<open>map_backward\<close>; \<open>'p\<close> is the type of a point of the target domain.
\<close>

record 'p domain =
  bounds :: bbox
  aspect :: real
  map_forward :: "real \<times> real \<Rightarrow> 'p"
  map_backward :: "'p \<Rightarrow> real \<times> real"

text \<open>\<open>LineDomain(bounds=[b0, b1])\<close>: the identity map on the line.\<close>

definition LineDomain :: "real \<Rightarrow> real \<Rightarrow> real domain" where
  "LineDomain b0 b1 =
     \<lparr> bounds = \<lparr> bmin = (b0, - 0.5), bmax = (b1, 0.5) \<rparr>,
       aspect = 0,
       map_forward = (\<lambda>p. fst p),
       map_backward = (\<lambda>p. (p, 0)) \<rparr>"

text \<open>
  \<open>PlanarDomain(bounds)\<close>: the identity map on the plane; \<open>aspect()\<close> divides the two
  extents of the box. The default box is \<open>ScalarBoundingBox2f(-1, 1)\<close>.
\<close>

definition PlanarDomain :: "bbox \<Rightarrow> (real \<times> real) domain" where
  "PlanarDomain b =
     \<lparr> bounds = b,
       aspect = (let e = extents b in fst e / snd e),
       map_forward = (\<lambda>p. p),
       map_backward = (\<lambda>p. p) \<rparr>"

definition default_planar_bounds :: bbox where
  "default_planar_bounds = \<lparr> bmin = (- 1, - 1), bmax = (1, 1) \<rparr>"

text \<open>
  The library functions \<open>SphericalDomain\<close> calls, on exact reals:
  \<open>ek.fnmadd(a, b, c) = -a * b + c\<close>, \<open>ek.safe_sqrt(x) = sqrt(max(x, 0))\<close>,
  \<open>ek.sincos(x) = (sin x, cos x)\<close> and the two-argument arc tangent \<open>ek.atan2(y, x)\<close>.
\<close>

definition fnmadd :: "real \<Rightarrow> real \<Rightarrow> real \<Rightarrow> real" where
  "fnmadd a b c = - (a * b) + c"

definition fmadd :: "real \<Rightarrow> real \<Rightarrow> real \<Rightarrow> real" where
  "fmadd a b c = a * b + c"

definition safe_sqrt :: "real \<Rightarrow> real" where
  "safe_sqrt x = sqrt (max x 0)"

definition sincos :: "real \<Rightarrow> real \<times> real" where
  "sincos x = (sin x, cos x)"

definition atan2 :: "real \<Rightarrow> real \<Rightarrow> real" where
  "atan2 y x =
     (if 0 < x then arctan (y / x)
      else if x < 0 then (if 0 \<le> y then arctan (y / x) + pi else arctan (y / x) - pi)
      else if 0 < y then pi / 2
      else if y < 0 then - (pi / 2)
      else 0)"

text \<open>
  \<open>SphericalDomain\<close>: the unit sphere in a \<open>[phi, cos(theta)]\<close> parameterisation.
  \<open>bounds()\<close> is the box \<open>[-pi, -1]\<close> to \<open>[pi, 1]\<close> and \<open>aspect()\<close> is the constant 2.
  (\<open>bounds()\<close> names \<open>ScalarBoundingBox2f\<close> without importing it; the name is bound at
  module level only by the script at the end of the file, which is the setting taken
  here.)
\<close>

definition spherical_map_forward :: "real \<times> real \<Rightarrow> real \<times> real \<times> real" where
  "spherical_map_forward p =
     (let cos_theta = - snd p;
          sin_theta = safe_sqrt (fnmadd cos_theta cos_theta 1);
          (sin_phi, cos_phi) = sincos (fst p)
      in (cos_phi * sin_theta, sin_phi * sin_theta, cos_theta))"

definition spherical_map_backward :: "real \<times> real \<times> real \<Rightarrow> real \<times> real" where
  "spherical_map_backward p =
     (case p of (px, py, pz) \<Rightarrow> (atan2 py px, - pz))"

definition SphericalDomain :: "(real \<times> real \<times> real) domain" where
  "SphericalDomain =
     \<lparr> bounds = \<lparr> bmin = (- pi, - 1), bmax = (pi, 1) \<rparr>,
       aspect = 2,
       map_forward = spherical_map_forward,
       map_backward = spherical_map_backward \<rparr>"

subsection \<open>The test object and its constructor\<close>

text \<open>
  What \<open>sample_func\<close> returns: an array of positions, or a tuple of positions and
  weights.
\<close>

datatype 'p samples = Positions "'p list" | Weighted "'p list" "real list"

text \<open>
  The attributes of a \<open>ChiSquareTest\<close>. \<open>rng\<close> stands for the \<open>PCG32\<close> generator seeded
  with \<open>arange(sample_count)\<close>: given \<open>sample_dim\<close> and \<open>sample_count\<close> it yields the
  table of uniform variates, one array per dimension. \<open>dumped\<close> records that
  \<open>_dump_tables\<close> wrote \<open>chi2_data.py\<close> (the text of the file is not modelled).
\<close>

record 'p chi_square_test =
  domain :: "'p domain"
  sample_func :: "real list list \<Rightarrow> 'p samples"
  pdf_func :: "'p \<Rightarrow> real"
  rng :: "nat \<Rightarrow> nat \<Rightarrow> real list list"
  sample_dim :: nat
  sample_count :: nat
  res :: "32 word \<times> 32 word"
  ires :: int
  test_bounds :: bbox
  pdf :: "real list option"
  histogram :: "real list option"
  p_value :: "pyfloat option"
  messages :: "message list"
  fail :: bool
  dumped :: bool

text \<open>Python's \<open>int(x)\<close> on a float truncates towards zero.\<close>

definition py_int :: "real \<Rightarrow> int" where
  "py_int x = (if 0 \<le> x then \<lfloor>x\<rfloor> else \<lceil>x\<rceil>)"

text \<open>
  Passing a Python integer as a component of \<open>ScalarVector2u\<close>: the binding accepts a
  value of the unsigned 32-bit range and raises \<open>TypeError\<close> otherwise.
\<close>

definition to_uint32 :: "int \<Rightarrow> error + 32 word" where
  "to_uint32 i = (if 0 \<le> i \<and> i < 2 ^ 32 then Inr (word_of_int i) else Inl TypeError)"

text \<open>
  \<open>__init__\<close>: an even \<open>res\<close> and an \<open>ires\<close> below 2 are refused; the resolution is
  \<open>ek.max(ScalarVector2u(res, int(res * domain.aspect())), 1)\<close>.
\<close>

definition init ::
  "'p domain \<Rightarrow> (real list list \<Rightarrow> 'p samples) \<Rightarrow> ('p \<Rightarrow> real) \<Rightarrow> (nat \<Rightarrow> nat \<Rightarrow> real list list)
     \<Rightarrow> nat \<Rightarrow> nat \<Rightarrow> int \<Rightarrow> int \<Rightarrow> error + 'p chi_square_test" where
  "init adapter sf pf gen sdim scount r ir =
     (if r mod 2 = 0 then Inl ResNotOdd
      else if ir < 2 then Inl IresTooSmall
      else
        bind_result (to_uint32 r) (\<lambda>rx.
        bind_result (to_uint32 (py_int (of_int r * aspect adapter))) (\<lambda>ry.
        Inr \<lparr> domain = adapter, sample_func = sf, pdf_func = pf, rng = gen,
              sample_dim = sdim, sample_count = scount,
              res = (max rx 1, max ry 1), ires = ir,
              test_bounds = bounds adapter,
              pdf = None, histogram = None, p_value = None,
              messages = [], fail = False, dumped = False \<rparr>)))"

subsection \<open>Library functions on arrays\<close>

text \<open>
  \<open>ek.hmin\<close> (the minimum of an array, infinity for an empty one), \<open>ek.hsum\<close> is
  \<open>sum_list\<close>, \<open>ek.clamp(v, lo, hi) = max(min(v, hi), lo)\<close>.
\<close>

fun hmin :: "real list \<Rightarrow> pyfloat" where
  "hmin [] = PosInf"
| "hmin (x # xs) = (case hmin xs of Fin m \<Rightarrow> Fin (min x m) | _ \<Rightarrow> Fin x)"

definition clamp :: "real \<Rightarrow> real \<Rightarrow> real \<Rightarrow> real" where
  "clamp v lo hi = max (min v hi) lo"

text \<open>
  \<open>ek.linspace(Float, lo, hi, n)\<close>: \<open>n\<close> values \<open>i * step + lo\<close> with
  \<open>step = (hi - lo) / (n - 1)\<close>. For \<open>n = 1\<close> the step of the floating-point code is a
  division by zero (an infinity or NaN); here \<open>x / 0 = 0\<close> and the single value is
  \<open>lo\<close>. Nothing below relies on that case.
\<close>

definition linspace :: "real \<Rightarrow> real \<Rightarrow> nat \<Rightarrow> real list" where
  "linspace lo hi n = map (\<lambda>i. fmadd (real i) ((hi - lo) / real (n - 1)) lo) [0..<n]"

text \<open>\<open>ek.meshgrid(xs, ys)\<close>: all pairs, the first coordinate running fastest.\<close>

definition meshgrid :: "real list \<Rightarrow> real list \<Rightarrow> (real \<times> real) list" where
  "meshgrid xs ys = concat (map (\<lambda>y. map (\<lambda>x. (x, y)) xs) ys)"

text \<open>
  \<open>ek.scatter_add(target, index, source)\<close> adds each source value to the target entry
  at its index. An index outside the target is reported as \<open>OutOfBounds\<close>.
\<close>

fun scatter_add :: "real list \<Rightarrow> (nat \<times> real) list \<Rightarrow> error + real list" where
  "scatter_add target [] = Inr target"
| "scatter_add target ((i, w) # rest) =
     (if i < length target then scatter_add (target[i := target ! i + w]) rest
      else Inl OutOfBounds)"

text \<open>\<open>ek.gather(source, index)\<close>, with the same convention for an index out of range.\<close>

definition gather :: "real list \<Rightarrow> nat list \<Rightarrow> error + real list" where
  "gather source idx =
     (if \<forall>i \<in> set idx. i < length source then Inr (map (\<lambda>i. source ! i) idx)
      else Inl OutOfBounds)"

text \<open>Converting a non-negative float to an unsigned 32-bit integer truncates it.\<close>

definition float_to_uint32 :: "real \<Rightarrow> 32 word" where
  "float_to_uint32 v = word_of_int (py_int v)"

definition log_message :: "message \<Rightarrow> 'p chi_square_test \<Rightarrow> 'p chi_square_test" where
  "log_message m st = st\<lparr> messages := messages st @ [m] \<rparr>"

subsection \<open>\<open>tabulate_histogram\<close>\<close>

text \<open>
  The sanity check of lines 134--136: a position is in the domain when it lies within
  \<open>1e-4\<close> of the extents around the box.
\<close>

definition in_domain :: "bbox \<Rightarrow> real \<times> real \<Rightarrow> bool" where
  "in_domain b xy =
     (let eps = (fst (extents b) * (1 / 10000), snd (extents b) * (1 / 10000))
      in fst (bmin b) - fst eps \<le> fst xy \<and> snd (bmin b) - snd eps \<le> snd xy
         \<and> fst xy \<le> fst (bmax b) + fst eps \<and> snd xy \<le> snd (bmax b) + snd eps)"

text \<open>
  \<open>Vector2f(self.res)\<close> and \<open>Vector2f(self.res - 1)\<close> convert unsigned 32-bit integers to
  single precision (the variant \<open>packet_rgb\<close> of the script): an integer below \<open>2^24\<close> is
  kept, a larger one is rounded to the nearest multiple of the spacing \<open>2^e\<close> of the
  floats around it, a tie going to the even multiple.
\<close>

definition float32_exponent :: "nat \<Rightarrow> nat" where
  "float32_exponent n =
     (if n < 2 ^ 24 then 0 else if n < 2 ^ 25 then 1 else if n < 2 ^ 26 then 2
      else if n < 2 ^ 27 then 3 else if n < 2 ^ 28 then 4 else if n < 2 ^ 29 then 5
      else if n < 2 ^ 30 then 6 else if n < 2 ^ 31 then 7 else 8)"

definition float32_of_nat :: "nat \<Rightarrow> nat" where
  "float32_of_nat n =
     (let u = 2 ^ float32_exponent n; q = n div u; r = n mod u
      in if 2 * r < u then q * u
         else if u < 2 * r then (q + 1) * u
         else if even q then q * u else (q + 1) * u)"

text \<open>
  Lines 143--144: the position is normalised by the box, scaled by the resolution,
  clamped to \<open>[0, res - 1]\<close> per axis (both bounds as single-precision floats) and
  converted to \<open>Vector2u\<close>. Line 151: the index \<open>xy.x + xy.y * self.res.x\<close>, computed on
  unsigned 32-bit integers.
\<close>

definition cell_coords :: "bbox \<Rightarrow> 32 word \<times> 32 word \<Rightarrow> real \<times> real \<Rightarrow> 32 word \<times> 32 word" where
  "cell_coords b r xy =
     (let nx = (fst xy - fst (bmin b)) / fst (extents b);
          ny = (snd xy - snd (bmin b)) / snd (extents b)
      in (float_to_uint32 (clamp (nx * real (float32_of_nat (unat (fst r)))) 0
                             (real (float32_of_nat (unat (fst r - 1))))),
          float_to_uint32 (clamp (ny * real (float32_of_nat (unat (snd r)))) 0
                             (real (float32_of_nat (unat (snd r - 1)))))))"

definition cell_index :: "32 word \<times> 32 word \<Rightarrow> 32 word \<times> 32 word \<Rightarrow> 32 word" where
  "cell_index r c = fst c + snd c * fst r"

text \<open>\<open>ek.hprod(self.res)\<close>, the length of the histogram: a product of 32-bit integers.\<close>

definition histogram_size :: "32 word \<times> 32 word \<Rightarrow> nat" where
  "histogram_size r = unat (fst r * snd r)"

definition scatter_indices :: "'p chi_square_test \<Rightarrow> 'p list \<Rightarrow> nat list" where
  "scatter_indices st positions =
     map (\<lambda>p. unat (cell_index (res st)
                 (cell_coords (test_bounds st) (res st) (map_backward (domain st) p))))
       positions"

text \<open>
  Lines 114--128: the variates are drawn, the sampling strategy is invoked, and a result
  without weights gets the weight 1 for every sample.
\<close>

definition drawn_samples :: "'p chi_square_test \<Rightarrow> 'p list \<times> real list" where
  "drawn_samples st =
     (let samples_in = rng st (sample_dim st) (sample_count st);
          samples_out = sample_func st samples_in
      in case samples_out of
           Weighted ps ws \<Rightarrow> (ps, ws)
         | Positions ps \<Rightarrow> (ps, replicate (length ps) 1))"

definition tabulate_histogram :: "'p chi_square_test \<Rightarrow> error + 'p chi_square_test" where
  "tabulate_histogram st =
     (let (positions, weights_out) = drawn_samples st;
          xy = map (map_backward (domain st)) positions;
          outside = filter (\<lambda>p. \<not> in_domain (test_bounds st) p) xy;
          st1 = (if outside \<noteq> [] then (log_message (MsgOutsideDomain outside) st)\<lparr> fail := True \<rparr>
                 else st);
          index = scatter_indices st positions
      in bind_result
           (scatter_add (replicate (histogram_size (res st)) 0) (zip index weights_out))
           (\<lambda>h.
              let st2 = st1\<lparr> histogram := Some h \<rparr>;
                  histogram_min = hmin h;
                  st3 = (if \<not> float_ge_zero histogram_min
                         then (log_message (MsgNegativeWeights histogram_min) st2)\<lparr> fail := True \<rparr>
                         else st2)
              in if sample_count st = 0 then Inl ZeroDivisionError
                 else
                   let histogram_sum = sum_list h / real (sample_count st)
                   in Inr (if histogram_sum > 1.1
                           then (log_message (MsgWeightSum histogram_sum) st3)\<lparr> fail := True \<rparr>
                           else st3)))"

subsection \<open>\<open>tabulate_pdf\<close>\<close>

text \<open>
  Lines 179--184: the node grid, one origin per cell, from
  \<open>linspace(min, max - 1/res, res)\<close> on each axis. \<open>1/self.res.x\<close> is a division of
  Python integers and raises for a zero resolution.
\<close>

definition cell_origins :: "real \<Rightarrow> real \<Rightarrow> 32 word \<Rightarrow> real list" where
  "cell_origins lo hi r = linspace lo (hi - 1 / real (unat r)) (unat r)"

text \<open>Lines 186--187: the offsets of the nodes inside a cell, \<open>linspace(0, 1, ires) / res\<close>.\<close>

definition node_offsets :: "int \<Rightarrow> 32 word \<Rightarrow> real list" where
  "node_offsets ir r = map (\<lambda>t. t / real (unat r)) (linspace 0 1 (nat ir))"

text \<open>
  Lines 188--191: the weights. \<open>[1 / ((ires - 1) * res)] * ires\<close> raises for a zero
  divisor; \<open>wx[0] = wx[-1] = wx[0] * .5\<close> evaluates the right-hand side once, assigns it
  to the first and then to the last entry, and raises on an empty list.
\<close>

definition quad_weights :: "int \<Rightarrow> 32 word \<Rightarrow> error + real list" where
  "quad_weights ir r =
     (if (ir - 1) * uint r = 0 then Inl ZeroDivisionError
      else
        let ws = replicate (nat ir) (1 / real_of_int ((ir - 1) * uint r))
        in if ws = [] then Inl IndexError
           else let v = ws ! 0 * 0.5 in Inr ((ws[0 := v])[length ws - 1 := v]))"

text \<open>
  Lines 193--199 for one cell with origin \<open>c\<close>: the two nested loops accumulate
  \<open>pdf * (wx[xi] * wy[yi])\<close> with \<open>fmadd\<close>, starting from 0; the density is evaluated at
  the image of the node under \<open>map_forward\<close>.
\<close>

definition integrate_cell ::
  "'p chi_square_test \<Rightarrow> real list \<Rightarrow> real list \<Rightarrow> real list \<Rightarrow> real list \<Rightarrow> real \<times> real \<Rightarrow> real" where
  "integrate_cell st nx ny wx wy c =
     foldl (\<lambda>integral (yi, dy).
        foldl (\<lambda>integral' (xi, dx).
           fmadd (pdf_func st (map_forward (domain st) (fst c + dx, snd c + dy)))
                 (wx ! xi * wy ! yi) integral')
          integral (enumerate 0 nx))
       0 (enumerate 0 ny)"

text \<open>
  The integral of every cell (lines 179--199): the grid of cell origins, the node
  offsets on both axes, and the accumulation over all nodes.
\<close>

definition cell_integrals :: "'p chi_square_test \<Rightarrow> real list \<Rightarrow> real list \<Rightarrow> real list" where
  "cell_integrals st wx wy =
     (let b = test_bounds st; rx = fst (res st); ry = snd (res st);
          grid = meshgrid (cell_origins (fst (bmin b)) (fst (bmax b)) rx)
                          (cell_origins (snd (bmin b)) (snd (bmax b)) ry);
          nx = node_offsets (ires st) rx;
          ny = node_offsets (ires st) ry
      in map (integrate_cell st nx ny wx wy) grid)"

text \<open>
  \<open>tabulate_pdf\<close>. The two sanity checks of lines 204--214 read the integrals before
  line 216 scales them by \<open>sample_count * hprod(extents)\<close>.
\<close>

definition tabulate_pdf :: "'p chi_square_test \<Rightarrow> error + 'p chi_square_test" where
  "tabulate_pdf st =
     (let b = test_bounds st; rx = fst (res st); ry = snd (res st) in
      if rx = 0 \<or> ry = 0 then Inl ZeroDivisionError
      else if ires st < 0 then Inl TypeError
      else
        bind_result (quad_weights (ires st) rx) (\<lambda>wx.
        bind_result (quad_weights (ires st) ry) (\<lambda>wy.
          let integral = cell_integrals st wx wy;
              st1 = st\<lparr> pdf := Some integral \<rparr>;
              pdf_min = hmin integral;
              st2 = (if \<not> float_ge_zero pdf_min
                     then (log_message (MsgNegativePdf pdf_min) st1)\<lparr> fail := True \<rparr>
                     else st1);
              pdf_sum = sum_list integral;
              scale = real (sample_count st) * (fst (extents b) * snd (extents b))
          in if pdf_sum > 1.1 * real (sample_count st)
             then (if sample_count st = 0 then Inl ZeroDivisionError
                   else Inr ((log_message (MsgPdfSum (pdf_sum / real (sample_count st))) st2)
                               \<lparr> fail := True, pdf := Some (map (\<lambda>v. v * scale) integral) \<rparr>))
             else Inr (st2\<lparr> pdf := Some (map (\<lambda>v. v * scale) integral) \<rparr>))))"

subsection \<open>\<open>run\<close>\<close>

text \<open>
  Line 253: the cell indices sorted by expected frequency. Python's \<open>sorted\<close> is
  stable, as is \<open>sort_key\<close>.
\<close>

definition sorted_index :: "real list \<Rightarrow> nat list" where
  "sorted_index xs = map fst (sort_key snd (enumerate 0 xs))"

text \<open>Line 267: \<open>ek.any(ek.eq(pdf, 0) & ek.neq(histogram, 0))\<close>.\<close>

definition zero_expected :: "real list \<Rightarrow> real list \<Rightarrow> bool" where
  "zero_expected pdf' histogram' = list_ex (\<lambda>(e, ob). e = 0 \<and> ob \<noteq> 0) (zip pdf' histogram')"

text \<open>
  Python's \<open>x ** y\<close> on floats: \<open>0.0\<close> to a negative power raises, \<open>x ** 0.0\<close> is 1, a
  negative base gives a float for an integral exponent and a complex number
  otherwise.
\<close>

definition py_pow :: "real \<Rightarrow> real \<Rightarrow> error + level" where
  "py_pow x y =
     (if y = 0 then Inr (RealLevel 1)
      else if x = 0 then (if y < 0 then Inl ZeroDivisionError else Inr (RealLevel 0))
      else if 0 < x then Inr (RealLevel (x powr y))
      else if of_int \<lfloor>y\<rfloor> = y then Inr (RealLevel (power_int x \<lfloor>y\<rfloor>))
      else Inr ComplexLevel)"

text \<open>
  Lines 287--288, the corrected significance level
  \<open>1.0 - (1.0 - significance_level) ** (1.0 / test_count)\<close>.
\<close>

definition sidak_level :: "real \<Rightarrow> int \<Rightarrow> error + level" where
  "sidak_level significance_level test_count =
     (if test_count = 0 then Inl ZeroDivisionError
      else bind_result (py_pow (1 - significance_level) (1 / of_int test_count))
             (\<lambda>p. Inr (case p of RealLevel v \<Rightarrow> RealLevel (1 - v) | ComplexLevel \<Rightarrow> ComplexLevel)))"

text \<open>
  \<open>_dump_tables\<close> reads \<open>pdf[x + y * res.x]\<close> and \<open>histogram[x + y * res.x]\<close> for every
  \<open>x\<close> in \<open>range(res.x)\<close> and \<open>y\<close> in \<open>range(res.y)\<close> (Python integers) and writes the file.
\<close>

definition dump_tables :: "'p chi_square_test \<Rightarrow> error + 'p chi_square_test" where
  "dump_tables st =
     (case (pdf st, histogram st) of
        (Some p, Some h) \<Rightarrow>
          (let n = unat (fst (res st)) * unat (snd (res st))
           in if n \<le> length p \<and> n \<le> length h then Inr (st\<lparr> dumped := True \<rparr>)
              else Inl IndexError)
      | _ \<Rightarrow> Inl TypeError)"

text \<open>
  The two functions \<open>run\<close> imports are parameters: \<open>chi2\<close> of \<open>mitsuba.core.math\<close>
  takes the observed and expected arrays and the pooling threshold and returns the
  statistic, the degrees of freedom and the two pooling counts; \<open>rlgamma\<close> of
  \<open>.math\<close> is the regularized lower incomplete gamma function and may raise.
\<close>

type_synonym chi2_func = "real list \<Rightarrow> real list \<Rightarrow> real \<Rightarrow> pyfloat \<times> int \<times> int \<times> int"
type_synonym rlgamma_func = "real \<Rightarrow> pyfloat \<Rightarrow> error + pyfloat"

text \<open>Lines 247--251: the two tables are computed when they are absent.\<close>

definition ensure_tables :: "'p chi_square_test \<Rightarrow> error + 'p chi_square_test" where
  "ensure_tables st =
     bind_result (if histogram st = None then tabulate_histogram st else Inr st) (\<lambda>st1.
       if pdf st1 = None then tabulate_pdf st1 else Inr st1)"

definition run ::
  "chi2_func \<Rightarrow> rlgamma_func \<Rightarrow> 'p chi_square_test \<Rightarrow> real \<Rightarrow> int
     \<Rightarrow> error + (bool \<times> 'p chi_square_test)" where
  "run chi2 rlgamma st significance_level test_count =
     bind_result (ensure_tables st) (\<lambda>st2.
       case (pdf st2, histogram st2) of
         (Some self_pdf, Some self_histogram) \<Rightarrow>
           (let index = sorted_index self_pdf in
            bind_result (gather self_pdf index) (\<lambda>pdf'.
            bind_result (gather self_histogram index) (\<lambda>histogram'.
              let (chi2val, dof, pooled_in, pooled_out) = chi2 histogram' pdf' 5;
                  st3 = (if dof < 1 then (log_message MsgDofTooLow st2)\<lparr> fail := True \<rparr> else st2);
                  st4 = (if zero_expected pdf' histogram'
                         then (log_message MsgZeroExpected st3)\<lparr> fail := True \<rparr> else st3);
                  st5 = (if pooled_in > 0 then log_message (MsgPooled pooled_in pooled_out) st4
                         else st4);
                  st6 = log_message (MsgStatistic chi2val dof) st5
              in bind_result (rlgamma (of_int dof / 2) (halve chi2val)) (\<lambda>g.
                 let p = one_minus g;
                     st7 = st6\<lparr> p_value := Some p \<rparr>
                 in bind_result (sidak_level significance_level test_count) (\<lambda>lv.
                    if fail st7
                    then bind_result (dump_tables st7) (\<lambda>st8.
                           Inr (False, log_message MsgNotRunning st8))
                    else
                      (case lv of
                         ComplexLevel \<Rightarrow> Inl TypeError
                       | RealLevel l \<Rightarrow>
                           if float_less p l \<or> \<not> isfinite p
                           then bind_result (dump_tables st7) (\<lambda>st8.
                                  Inr (False, log_message (MsgRejected p lv) st8))
                           else Inr (True, log_message (MsgAccepted p lv) st7)))))))
       | _ \<Rightarrow> Inl TypeError)"

subsection \<open>Example inputs\<close>

text \<open>
  A test object on the line with three cells whose two tables are already present, and
  two stand-ins for the imported functions: a statistic of \<open>1/2\<close> with two degrees of
  freedom, and an incomplete gamma value of \<open>1/5\<close>.
\<close>

definition example_test :: "real list \<Rightarrow> real list \<Rightarrow> real chi_square_test" where
  "example_test e h =
     \<lparr> domain = LineDomain (- 1) 1, sample_func = (\<lambda>u. Positions []), pdf_func = (\<lambda>x. 1),
       rng = (\<lambda>m n. []), sample_dim = 1, sample_count = 60, res = (3, 1), ires = 2,
       test_bounds = bounds (LineDomain (- 1) 1),
       pdf = Some e, histogram = Some h, p_value = None,
       messages = [], fail = False, dumped = False \<rparr>"

definition example_chi2 :: chi2_func where
  "example_chi2 ob ex t = (Fin (1 / 2), 2, 0, 0)"

definition example_rlgamma :: rlgamma_func where
  "example_rlgamma k x = Inr (Fin (1 / 5))"

text \<open>
  Two further stand-ins that make the data flow visible: a \<open>chi2\<close> that returns a given
  statistic and number of degrees of freedom, and an \<open>rlgamma\<close> that returns the product
  of its two arguments.
\<close>

definition chi2_of :: "real \<Rightarrow> int \<Rightarrow> chi2_func" where
  "chi2_of c d ob ex t = (Fin c, d, 0, 0)"

definition product_rlgamma :: rlgamma_func where
  "product_rlgamma k x =
     Inr (case x of Fin r \<Rightarrow> Fin (k * r) | PosInf \<Rightarrow> PosInf | NegInf \<Rightarrow> NegInf | NaN \<Rightarrow> NaN)"

text \<open>
  A constant density, an empty table of variates and a sampling strategy that returns
  the single position \<open>(0, 2)\<close>.
\<close>

definition unit_density :: "'p \<Rightarrow> real" where
  "unit_density p = 1"

definition no_variates :: "nat \<Rightarrow> nat \<Rightarrow> real list list" where
  "no_variates m n = []"

definition one_sample :: "real list list \<Rightarrow> (real \<times> real) samples" where
  "one_sample u = Positions [(0, 2)]"

text \<open>
  A planar test on the box \<open>[0, 65537]\<close> squared with \<open>res = 65537\<close>: the product of the
  two resolutions exceeds the 32-bit range.
\<close>

definition overflow_bounds :: bbox where
  "overflow_bounds = \<lparr> bmin = (0, 0), bmax = (65537, 65537) \<rparr>"

definition overflow_test :: "(real \<times> real) chi_square_test" where
  "overflow_test =
     \<lparr> domain = PlanarDomain overflow_bounds, sample_func = one_sample,
       pdf_func = unit_density, rng = no_variates, sample_dim = 2, sample_count = 1,
       res = (65537, 65537), ires = 2, test_bounds = overflow_bounds,
       pdf = None, histogram = None, p_value = None,
       messages = [], fail = False, dumped = False \<rparr>"

text \<open>
  A test on the line \<open>[-1, 1]\<close> with \<open>res = 33554439 = 2^25 + 7\<close>, whose single sample lies
  on the upper bound: \<open>res - 1\<close> is not a single-precision float.
\<close>

definition upper_sample :: "real list list \<Rightarrow> real samples" where
  "upper_sample u = Positions [1]"

definition rounding_test :: "real chi_square_test" where
  "rounding_test =
     \<lparr> domain = LineDomain (- 1) 1, sample_func = upper_sample,
       pdf_func = unit_density, rng = no_variates, sample_dim = 1, sample_count = 1,
       res = (33554439, 1), ires = 2, test_bounds = bounds (LineDomain (- 1) 1),
       pdf = None, histogram = None, p_value = None,
       messages = [], fail = False, dumped = False \<rparr>"

text \<open>
  A planar test on the default box \<open>[-1, 1]\<close> squared with a density that is 1
  everywhere (it integrates to 4, not to 1), \<open>res = 3\<close>, \<open>ires = 2\<close> and one sample; and
  the density table that \<open>tabulate_pdf\<close> stores for it.
\<close>

definition unnormalised_test :: "(real \<times> real) chi_square_test" where
  "unnormalised_test =
     \<lparr> domain = PlanarDomain default_planar_bounds, sample_func = one_sample,
       pdf_func = unit_density, rng = no_variates, sample_dim = 2, sample_count = 1,
       res = (3, 3), ires = 2, test_bounds = default_planar_bounds,
       pdf = None, histogram = None, p_value = None,
       messages = [], fail = False, dumped = False \<rparr>"

definition unnormalised_table :: "real list" where
  "unnormalised_table = [4 / 9, 4 / 9, 4 / 9, 4 / 9, 4 / 9, 4 / 9, 4 / 9, 4 / 9, 4 / 9]"

text \<open>
  The same test with the density \<open>(1 + x) / 4\<close>, which is linear, non-negative on the box
  and integrates to 1 over it; and the density table that \<open>tabulate_pdf\<close> stores for it.
\<close>

definition linear_density :: "real \<times> real \<Rightarrow> real" where
  "linear_density p = (1 + fst p) / 4"

definition linear_test :: "(real \<times> real) chi_square_test" where
  "linear_test =
     \<lparr> domain = PlanarDomain default_planar_bounds, sample_func = one_sample,
       pdf_func = linear_density, rng = no_variates, sample_dim = 2, sample_count = 1,
       res = (3, 3), ires = 2, test_bounds = default_planar_bounds,
       pdf = None, histogram = None, p_value = None,
       messages = [], fail = False, dumped = False \<rparr>"

definition linear_table :: "real list" where
  "linear_table = [1 / 54, 1 / 9, 11 / 54, 1 / 54, 1 / 9, 11 / 54, 1 / 54, 1 / 9, 11 / 54]"

text \<open>
  The width of a histogram cell in rectangle coordinates: \<open>tabulate_histogram\<close> puts a
  position \<open>x\<close> into the cell \<open>floor((x - lo) / (hi - lo) * res)\<close> of its axis, so the cells
  divide \<open>[lo, hi]\<close> into \<open>res\<close> equal parts.
\<close>

definition cell_width :: "real \<Rightarrow> real \<Rightarrow> 32 word \<Rightarrow> real" where
  "cell_width lo hi r = (hi - lo) / real (unat r)"

section \<open>Properties\<close>

subsection \<open>The grid resolution\<close>

lemma to_uint32_Inr: "to_uint32 i = Inr w \<Longrightarrow> 0 \<le> i \<and> i < 2 ^ 32 \<and> uint w = i"
  by (auto simp: to_uint32_def split: if_splits simp: uint_word_of_int take_bit_int_eq_self)

lemma max_one_word: "1 \<le> unat (max (w :: 32 word) 1)"
  by (metis max.cobounded2 unat_1 word_le_nat_alt)

lemma py_int_nonneg: "0 \<le> x \<Longrightarrow> 0 \<le> py_int x"
  by (simp add: py_int_def)

text \<open>
  C9. For an odd \<open>res \<ge> 1\<close> and an adapter with \<open>aspect() \<ge> 0\<close>, every test object
  that \<open>__init__\<close> constructs has the horizontal resolution \<open>res\<close>, which is odd, and a
  vertical resolution of at least 1; and \<open>__init__\<close> does construct one whenever
  \<open>ires \<ge> 2\<close> and both \<open>res\<close> and \<open>res * aspect()\<close> are below \<open>2^32\<close>.
\<close>

theorem init_resolution:
  assumes "odd r" and "1 \<le> r" and "0 \<le> aspect d"
  shows "(\<forall>st. init d sf pf gen sd sc r ir = Inr st \<longrightarrow>
            uint (fst (res st)) = r \<and> odd (unat (fst (res st))) \<and> 1 \<le> unat (snd (res st)))
       \<and> (2 \<le> ir \<and> r < 2 ^ 32 \<and> of_int r * aspect d < 2 ^ 32 \<longrightarrow>
            (\<exists>st. init d sf pf gen sd sc r ir = Inr st))"
proof (intro conjI allI impI)
  fix st assume a: "init d sf pf gen sd sc r ir = Inr st"
  then obtain rx ry where rx: "to_uint32 r = Inr rx"
    and ry: "to_uint32 (py_int (of_int r * aspect d)) = Inr ry"
    and st: "res st = (max rx 1, max ry 1)"
    by (auto simp: init_def bind_result_def split: if_splits sum.splits)
  have u: "uint rx = r" using to_uint32_Inr[OF rx] by simp
  have "1 \<le> rx" using u assms(2) by (metis uint_1 word_le_def)
  then have m: "max rx 1 = rx" by (simp add: max_def)
  show "uint (fst (res st)) = r" using st m u by simp
  have "int (unat rx) = r" using u by simp
  then have "odd (unat rx)" using assms(1) by (metis even_of_nat)
  then show "odd (unat (fst (res st)))" using st m by simp
  show "1 \<le> unat (snd (res st))" using st max_one_word by simp
next
  assume b: "2 \<le> ir \<and> r < 2 ^ 32 \<and> of_int r * aspect d < 2 ^ 32"
  have nn: "0 \<le> of_int r * aspect d" using assms by simp
  have "py_int (of_int r * aspect d) < 2 ^ 32"
    using b nn by (simp add: py_int_def floor_less_iff)
  moreover have "0 \<le> py_int (of_int r * aspect d)" using nn by (rule py_int_nonneg)
  ultimately show "\<exists>st. init d sf pf gen sd sc r ir = Inr st"
    using assms b by (auto simp: init_def bind_result_def to_uint32_def odd_iff_mod_2_eq_one)
qed

theorem init_resolution_witness:
  "odd (101 :: int) \<and> (1 :: int) \<le> 101 \<and> 0 \<le> aspect (LineDomain (- 1) 1)
   \<and> (\<exists>st. init (LineDomain (- 1) 1) (\<lambda>u. Positions []) (\<lambda>x. 1) (\<lambda>m n. []) 1 1000 101 4 = Inr st
         \<and> uint (fst (res st)) = 101 \<and> unat (snd (res st)) = 1)"
proof -
  have h: "odd (101 :: int)" "(1 :: int) \<le> 101" "0 \<le> aspect (LineDomain (- 1) 1)"
    by (simp_all add: LineDomain_def)
  note t = init_resolution [OF h, of "\<lambda>u. Positions []" "\<lambda>x. 1" "\<lambda>m n. []" 1 1000 4]
  show ?thesis using h t
    by (auto simp: LineDomain_def init_def bind_result_def to_uint32_def py_int_def)
qed

subsection \<open>The decision of \<open>run\<close>\<close>

lemma log_message_simps [simp]:
  "fail (log_message m st) = fail st"
  "pdf (log_message m st) = pdf st"
  "histogram (log_message m st) = histogram st"
  "p_value (log_message m st) = p_value st"
  "res (log_message m st) = res st"
  "dumped (log_message m st) = dumped st"
  by (simp_all add: log_message_def)

lemma dump_tables_Inr:
  "dump_tables st = Inr st' \<Longrightarrow> st' = st\<lparr> dumped := True \<rparr>"
  by (auto simp: dump_tables_def Let_def split: option.splits if_splits)

lemma run_cases:
  assumes "run chi2 rlgamma st a n = Inr (b, st')"
  obtains st2 e h e' h' c dof pin pout g lv where
    "ensure_tables st = Inr st2" "pdf st2 = Some e" "histogram st2 = Some h"
    "gather e (sorted_index e) = Inr e'" "gather h (sorted_index e) = Inr h'"
    "chi2 h' e' 5 = (c, dof, pin, pout)"
    "rlgamma (of_int dof / 2) (halve c) = Inr g"
    "sidak_level a n = Inr lv"
    "p_value st' = Some (one_minus g)"
    "fail st' = (fail st2 \<or> dof < 1 \<or> zero_expected e' h')"
    "b = (\<not> fail st' \<and> (\<exists>l. lv = RealLevel l \<and> \<not> float_less (one_minus g) l) \<and> isfinite (one_minus g))"
    "pdf st' = Some e" "histogram st' = Some h"
    "fail st' \<or> (\<exists>l. lv = RealLevel l)"
proof -
  from assms obtain st2 where t: "ensure_tables st = Inr st2"
    by (auto simp: run_def bind_result_def split: sum.splits)
  from assms t obtain e h where eh: "pdf st2 = Some e" "histogram st2 = Some h"
    by (auto simp: run_def bind_result_def split: sum.splits option.splits)
  from assms t eh obtain e' h' where g: "gather e (sorted_index e) = Inr e'" "gather h (sorted_index e) = Inr h'"
    by (auto simp: run_def bind_result_def Let_def split: sum.splits)
  obtain c dof pin pout where c: "chi2 h' e' 5 = (c, dof, pin, pout)"
    by (cases "chi2 h' e' 5") auto
  from assms t eh g c obtain gv where gv: "rlgamma (of_int dof / 2) (halve c) = Inr gv"
    by (auto simp: run_def bind_result_def Let_def split: sum.splits)
  from assms t eh g c gv obtain lv where lv: "sidak_level a n = Inr lv"
    by (auto simp: run_def bind_result_def Let_def split: sum.splits)
  from assms t eh g c gv lv have
    "p_value st' = Some (one_minus gv)
     \<and> fail st' = (fail st2 \<or> dof < 1 \<or> zero_expected e' h')
     \<and> b = (\<not> fail st' \<and> (\<exists>l. lv = RealLevel l \<and> \<not> float_less (one_minus gv) l) \<and> isfinite (one_minus gv))
     \<and> pdf st' = Some e \<and> histogram st' = Some h
     \<and> (fail st' \<or> (\<exists>l. lv = RealLevel l))"
    by (auto simp: run_def bind_result_def Let_def split: sum.splits if_splits level.splits dest!: dump_tables_Inr)
  with t eh g c gv lv that show thesis by blast
qed

lemma tabulate_histogram_fail: "tabulate_histogram st = Inr st' \<Longrightarrow> fail st \<Longrightarrow> fail st'"
  by (auto simp: tabulate_histogram_def bind_result_def Let_def split: sum.splits if_splits prod.splits)

lemma tabulate_pdf_fail: "tabulate_pdf st = Inr st' \<Longrightarrow> fail st \<Longrightarrow> fail st'"
  by (auto simp: tabulate_pdf_def bind_result_def Let_def split: sum.splits if_splits)

lemma ensure_tables_fail: "ensure_tables st = Inr st' \<Longrightarrow> fail st \<Longrightarrow> fail st'"
  by (auto simp: ensure_tables_def bind_result_def split: sum.splits if_splits
      dest: tabulate_histogram_fail tabulate_pdf_fail)

lemma sorted_index_example: "sorted_index [10, 20, 30] = [0, 1, 2]"
  by (simp add: sorted_index_def enumerate_eq_zip upt_rec)

lemma py_pow_one: "0 < x \<Longrightarrow> py_pow x 1 = Inr (RealLevel x)"
  by (simp add: py_pow_def)

lemma halve_case:
  "halve c = (case c of Fin r \<Rightarrow> Fin (r / 2) | PosInf \<Rightarrow> PosInf | NegInf \<Rightarrow> NegInf | NaN \<Rightarrow> NaN)"
  by (cases c) simp_all

lemma one_minus_case:
  "one_minus g = (case g of Fin r \<Rightarrow> Fin (1 - r) | PosInf \<Rightarrow> NegInf | NegInf \<Rightarrow> PosInf | NaN \<Rightarrow> NaN)"
  by (cases g) simp_all

lemma float_less_case:
  "float_less p l = (case p of Fin r \<Rightarrow> r < l | PosInf \<Rightarrow> False | NegInf \<Rightarrow> True | NaN \<Rightarrow> False)"
  by (cases p) simp_all

lemma isfinite_case:
  "isfinite p = (case p of Fin r \<Rightarrow> True | PosInf \<Rightarrow> False | NegInf \<Rightarrow> False | NaN \<Rightarrow> False)"
  by (cases p) simp_all

lemma ensure_tables_stages:
  assumes "ensure_tables st = Inr st2"
  shows "\<exists>st1. (if histogram st = None then tabulate_histogram st else Inr st) = Inr st1
            \<and> (if pdf st1 = None then tabulate_pdf st1 else Inr st1) = Inr st2"
  using assms unfolding ensure_tables_def bind_result_def by (auto split: sum.splits)

text \<open>
  \<open>run\<close> returns whenever the tables are there (or can be computed) and have the size
  of the grid, \<open>rlgamma\<close> returns and the corrected level is a real number; the result is
  then determined by the flag, the statistic and the level.
\<close>

lemma run_eval:
  assumes "ensure_tables st = Inr st2" and "pdf st2 = Some e" and "histogram st2 = Some h"
    and "gather e (sorted_index e) = Inr e'" and "gather h (sorted_index e) = Inr h'"
    and "chi2 h' e' 5 = (c, dof, pin, pout)"
    and "rlgamma (of_int dof / 2) (halve c) = Inr g"
    and "sidak_level a n = Inr (RealLevel l)"
    and "unat (fst (res st2)) * unat (snd (res st2)) \<le> length e"
    and "unat (fst (res st2)) * unat (snd (res st2)) \<le> length h"
  shows "\<exists>st'. run chi2 rlgamma st a n
           = Inr (\<not> (fail st2 \<or> dof < 1 \<or> zero_expected e' h')
                   \<and> \<not> float_less (one_minus g) l \<and> isfinite (one_minus g), st')"
  using assms by (simp add: run_def bind_result_def Let_def dump_tables_def)

text \<open>
  C1. When \<open>run\<close> returns \<open>b\<close>, the two tables were computed where absent, \<open>chi2\<close> was
  applied to the tables sorted by expected frequency, the p-value \<open>p\<close> is 1 minus what
  \<open>rlgamma\<close> returned, the failure flag at the decision is the flag after the
  tabulation (which keeps a flag set on entry) or \<open>dof < 1\<close> or a cell with expected 0
  and observed not 0, and \<open>b\<close> is \<open>False\<close> exactly when that flag is set, or \<open>p\<close> is
  below the corrected significance level, or \<open>p\<close> is not finite.
\<close>

theorem run_returns_false_iff:
  assumes "run chi2 rlgamma st a n = Inr (b, st')"
  shows "\<exists>st1 st2 e h e' h' c dof pin pout g p flag.
       (if histogram st = None then tabulate_histogram st else Inr st) = Inr st1
     \<and> (if pdf st1 = None then tabulate_pdf st1 else Inr st1) = Inr st2
     \<and> pdf st2 = Some e \<and> histogram st2 = Some h
     \<and> gather e (sorted_index e) = Inr e' \<and> gather h (sorted_index e) = Inr h'
     \<and> chi2 h' e' 5 = (c, dof, pin, pout)
     \<and> rlgamma (of_int dof / 2)
          (case c of Fin r \<Rightarrow> Fin (r / 2) | PosInf \<Rightarrow> PosInf | NegInf \<Rightarrow> NegInf | NaN \<Rightarrow> NaN)
         = Inr g
     \<and> p = (case g of Fin r \<Rightarrow> Fin (1 - r) | PosInf \<Rightarrow> NegInf | NegInf \<Rightarrow> PosInf | NaN \<Rightarrow> NaN)
     \<and> flag = (fail st2 \<or> dof < 1 \<or> list_ex (\<lambda>(x, y). x = 0 \<and> y \<noteq> 0) (zip e' h'))
     \<and> (fail st \<longrightarrow> fail st2)
     \<and> p_value st' = Some p \<and> fail st' = flag
     \<and> (b = False)
         = (flag
            \<or> (\<exists>l. sidak_level a n = Inr (RealLevel l)
                  \<and> (case p of Fin r \<Rightarrow> r < l | PosInf \<Rightarrow> False | NegInf \<Rightarrow> True | NaN \<Rightarrow> False))
            \<or> (case p of Fin r \<Rightarrow> False | PosInf \<Rightarrow> True | NegInf \<Rightarrow> True | NaN \<Rightarrow> True))"
proof -
  obtain st2 e h e' h' c dof pin pout g lv where
    t: "ensure_tables st = Inr st2" and e: "pdf st2 = Some e" and h: "histogram st2 = Some h"
    and ge: "gather e (sorted_index e) = Inr e'" and gh: "gather h (sorted_index e) = Inr h'"
    and c: "chi2 h' e' 5 = (c, dof, pin, pout)"
    and g: "rlgamma (of_int dof / 2) (halve c) = Inr g"
    and lv: "sidak_level a n = Inr lv"
    and p: "p_value st' = Some (one_minus g)"
    and f: "fail st' = (fail st2 \<or> dof < 1 \<or> zero_expected e' h')"
    and b: "b = (\<not> fail st' \<and> (\<exists>l. lv = RealLevel l \<and> \<not> float_less (one_minus g) l) \<and> isfinite (one_minus g))"
    and "pdf st' = Some e" and "histogram st' = Some h"
    and r: "fail st' \<or> (\<exists>l. lv = RealLevel l)"
    by (rule run_cases [OF assms])
  obtain st1 where
    s1: "(if histogram st = None then tabulate_histogram st else Inr st) = Inr st1"
    and s2: "(if pdf st1 = None then tabulate_pdf st1 else Inr st1) = Inr st2"
    using ensure_tables_stages [OF t] by blast
  have m: "fail st \<longrightarrow> fail st2" using ensure_tables_fail [OF t] by blast
  have d: "(b = False) = (fail st' \<or> (\<exists>l. sidak_level a n = Inr (RealLevel l) \<and> float_less (one_minus g) l)
                              \<or> \<not> isfinite (one_minus g))"
    using b r lv by auto
  have "(if histogram st = None then tabulate_histogram st else Inr st) = Inr st1
     \<and> (if pdf st1 = None then tabulate_pdf st1 else Inr st1) = Inr st2
     \<and> pdf st2 = Some e \<and> histogram st2 = Some h
     \<and> gather e (sorted_index e) = Inr e' \<and> gather h (sorted_index e) = Inr h'
     \<and> chi2 h' e' 5 = (c, dof, pin, pout)
     \<and> rlgamma (of_int dof / 2)
          (case c of Fin r \<Rightarrow> Fin (r / 2) | PosInf \<Rightarrow> PosInf | NegInf \<Rightarrow> NegInf | NaN \<Rightarrow> NaN)
         = Inr g
     \<and> one_minus g
         = (case g of Fin r \<Rightarrow> Fin (1 - r) | PosInf \<Rightarrow> NegInf | NegInf \<Rightarrow> PosInf | NaN \<Rightarrow> NaN)
     \<and> fail st' = (fail st2 \<or> dof < 1 \<or> list_ex (\<lambda>(x, y). x = 0 \<and> y \<noteq> 0) (zip e' h'))
     \<and> (fail st \<longrightarrow> fail st2)
     \<and> p_value st' = Some (one_minus g) \<and> fail st' = fail st'
     \<and> (b = False)
         = (fail st'
            \<or> (\<exists>l. sidak_level a n = Inr (RealLevel l)
                  \<and> (case one_minus g of Fin r \<Rightarrow> r < l | PosInf \<Rightarrow> False | NegInf \<Rightarrow> True
                       | NaN \<Rightarrow> False))
            \<or> (case one_minus g of Fin r \<Rightarrow> False | PosInf \<Rightarrow> True | NegInf \<Rightarrow> True
                 | NaN \<Rightarrow> True))"
    using s1 s2 e h ge gh c g [unfolded halve_case] m p f [unfolded zero_expected_def]
      d [unfolded float_less_case isfinite_case] one_minus_case [of g]
    by (simp split: pyfloat.splits)
  then show ?thesis by - ((rule exI)+, assumption)
qed

lemma example_tables:
  "ensure_tables (example_test e h) = Inr (example_test e h)"
  "pdf (example_test e h) = Some e" "histogram (example_test e h) = Some h"
  "res (example_test e h) = (3, 1)" "fail (example_test e h) = False"
  by (simp_all add: ensure_tables_def example_test_def bind_result_def)

lemma gather_example:
  "gather [a, b, c] [0, 1, 2] = Inr [a, b, c]" "gather [a, b, c] [0, Suc 0, 2] = Inr [a, b, c]"
  by (simp_all add: gather_def)

lemma sidak_level_one: "0 < a \<Longrightarrow> a < 1 \<Longrightarrow> sidak_level a 1 = Inr (RealLevel a)"
  by (simp add: sidak_level_def bind_result_def py_pow_one)

lemma example_run_reject:
  "\<exists>st'. run (chi2_of (99 / 50) 2) product_rlgamma (example_test [10, 20, 30] [12, 18, 30])
            (1 / 20) 1 = Inr (False, st')"
proof -
  have "\<exists>st'. run (chi2_of (99 / 50) 2) product_rlgamma (example_test [10, 20, 30] [12, 18, 30])
            (1 / 20) 1
     = Inr (\<not> (fail (example_test [10, 20, 30] [12, 18, 30]) \<or> (2 :: int) < 1
                  \<or> zero_expected [10, 20, 30] [12, 18, 30])
             \<and> \<not> float_less (one_minus (Fin (99 / 100))) (1 / 20)
             \<and> isfinite (one_minus (Fin (99 / 100))), st')"
    by (rule run_eval [where e = "[10, 20, 30]" and h = "[12, 18, 30]" and c = "Fin (99 / 50)"
          and pin = 0 and pout = 0])
       (simp_all add: example_tables sorted_index_example gather_example chi2_of_def
          product_rlgamma_def sidak_level_one)
  then show ?thesis by simp
qed

theorem run_returns_false_iff_witness:
  "\<exists>st'. run (chi2_of (99 / 50) 2) product_rlgamma (example_test [10, 20, 30] [12, 18, 30])
            (1 / 20) 1 = Inr (False, st')
     \<and> p_value st' = Some (Fin (1 / 100)) \<and> fail st' = False
     \<and> sidak_level (1 / 20) 1 = Inr (RealLevel (1 / 20))"
proof -
  from example_run_reject obtain st' where
    r: "run (chi2_of (99 / 50) 2) product_rlgamma (example_test [10, 20, 30] [12, 18, 30])
          (1 / 20) 1 = Inr (False, st')"
    by blast
  from run_returns_false_iff [OF r]
  have "p_value st' = Some (Fin (1 / 100)) \<and> fail st' = False"
    by (auto simp: chi2_of_def product_rlgamma_def example_tables sorted_index_example
        gather_example zero_expected_def split: if_splits)
  then show ?thesis using r by (simp add: sidak_level_one)
qed

lemma set_sorted_index: "set (sorted_index xs) = {0..<length xs}"
proof -
  have "set (sorted_index xs) = set (map fst (enumerate 0 xs))"
    by (simp only: sorted_index_def set_map set_sort)
  also have "\<dots> = set [0..<0 + length xs]" by (simp only: map_fst_enumerate)
  finally show ?thesis by simp
qed

lemma gather_sorted_index:
  "length h = length e \<Longrightarrow> gather h (sorted_index e) = Inr (map (\<lambda>i. h ! i) (sorted_index e))"
  by (simp add: gather_def set_sorted_index)

lemma zero_expected_gathered:
  "zero_expected (map (\<lambda>i. e ! i) idx) (map (\<lambda>i. h ! i) idx) = (\<exists>i \<in> set idx. e ! i = 0 \<and> h ! i \<noteq> 0)"
  by (induction idx) (auto simp: zero_expected_def)

lemma sidak_level_total: "1 \<le> n \<Longrightarrow> \<exists>lv. sidak_level a n = Inr lv"
  by (auto simp: sidak_level_def py_pow_def bind_result_def)

text \<open>
  C2. If the two tables have the size of the grid and some cell has an expected count
  of 0 and an observed count other than 0, then \<open>run\<close> returns \<open>False\<close>, whatever the
  statistic (\<open>chi2\<close> is arbitrary) and the significance level, provided \<open>rlgamma\<close>
  returns and \<open>test_count\<close> is at least 1.
\<close>

theorem zero_expected_cell_rejects:
  assumes "ensure_tables st = Inr st2" and "pdf st2 = Some e" and "histogram st2 = Some h"
    and "length h = length e" and "length e = unat (fst (res st2)) * unat (snd (res st2))"
    and "i < length e" and "e ! i = 0" and "h ! i \<noteq> 0"
    and "\<And>k x. \<exists>g. rlgamma k x = Inr g" and "1 \<le> n"
  shows "\<exists>st'. run chi2 rlgamma st a n = Inr (False, st') \<and> fail st'"
proof -
  let ?idx = "sorted_index e"
  let ?e' = "map (\<lambda>i. e ! i) ?idx" and ?h' = "map (\<lambda>i. h ! i) ?idx"
  have ge: "gather e ?idx = Inr ?e'" by (rule gather_sorted_index) simp
  have gh: "gather h ?idx = Inr ?h'" using assms(4) by (rule gather_sorted_index)
  have "i \<in> set ?idx" using assms(6) by (simp add: set_sorted_index)
  then have z: "zero_expected ?e' ?h'"
    using assms(7,8) unfolding zero_expected_gathered by blast
  obtain c dof pin pout where c: "chi2 ?h' ?e' 5 = (c, dof, pin, pout)"
    by (cases "chi2 ?h' ?e' 5") auto
  obtain g where g: "rlgamma (of_int dof / 2) (halve c) = Inr g" using assms(9) by blast
  obtain lv where lv: "sidak_level a n = Inr lv" using sidak_level_total[OF assms(10)] by blast
  show ?thesis
    using assms(1-5) ge gh z c g lv
    by (simp add: run_def bind_result_def Let_def dump_tables_def)
qed

theorem zero_expected_cell_rejects_witness:
  "\<exists>st'. run example_chi2 example_rlgamma (example_test [0, 20, 30] [1, 18, 30]) (1 / 20) 1
            = Inr (False, st') \<and> fail st'"
proof (rule zero_expected_cell_rejects [where i = 0 and e = "[0, 20, 30]" and h = "[1, 18, 30]"])
  show "ensure_tables (example_test [0, 20, 30] [1, 18, 30]) = Inr (example_test [0, 20, 30] [1, 18, 30])"
    by (simp add: ensure_tables_def example_test_def bind_result_def)
qed (simp_all add: example_test_def example_rlgamma_def)

lemma sqrt_95_bounds: "9746 / 10000 < sqrt (95 / 100 :: real)" "sqrt (95 / 100 :: real) < 9747 / 10000"
  by (rule real_less_rsqrt, simp add: power2_eq_square) (rule real_less_lsqrt, simp_all add: power2_eq_square)

lemma sidak_level_unit:
  assumes "0 < a" and "a < 1" and "1 \<le> n"
  shows "sidak_level a n = Inr (RealLevel (1 - (1 - a) powr (1 / of_int n)))"
  using assms by (simp add: sidak_level_def py_pow_def bind_result_def)

lemma accept_case:
  "(\<not> float_less (one_minus g) l \<and> isfinite (one_minus g))
     = (case g of Fin r \<Rightarrow> \<not> (1 - r < l) | PosInf \<Rightarrow> False | NegInf \<Rightarrow> False | NaN \<Rightarrow> False)"
  by (cases g) simp_all

text \<open>
  C3. For a significance level \<open>a\<close> in \<open>(0, 1)\<close> and \<open>test_count = n \<ge> 1\<close> the corrected
  level is \<open>1 - (1 - a)^(1/n)\<close>, and \<open>run\<close> compares the p-value with it: on tables of the
  size of the grid, with \<open>chi2\<close> returning the statistic \<open>c\<close> and \<open>rlgamma\<close> returning
  \<open>g\<close>, \<open>run\<close> returns, and it accepts exactly when no failure is flagged, \<open>g\<close> is finite
  and \<open>1 - g\<close> is not below \<open>1 - (1 - a)^(1/n)\<close>. For \<open>a = 0.05\<close>, \<open>n = 2\<close> the level is
  \<open>1 - sqrt 0.95\<close>, within \<open>0.0001\<close> of \<open>0.0253\<close>.
\<close>

theorem sidak_correction:
  assumes "0 < a" and "a < 1" and "1 \<le> n"
  shows "sidak_level a n = Inr (RealLevel (1 - (1 - a) powr (1 / of_int n)))
    \<and> (\<forall>chi2 rlgamma (st :: 'p chi_square_test) st2 e h e' h' c dof pin pout g.
         ensure_tables st = Inr st2 \<and> pdf st2 = Some e \<and> histogram st2 = Some h
         \<and> gather e (sorted_index e) = Inr e' \<and> gather h (sorted_index e) = Inr h'
         \<and> chi2 h' e' 5 = (c, dof, pin, pout)
         \<and> rlgamma (of_int dof / 2)
              (case c of Fin r \<Rightarrow> Fin (r / 2) | PosInf \<Rightarrow> PosInf | NegInf \<Rightarrow> NegInf | NaN \<Rightarrow> NaN)
             = Inr g
         \<and> unat (fst (res st2)) * unat (snd (res st2)) \<le> length e
         \<and> unat (fst (res st2)) * unat (snd (res st2)) \<le> length h
         \<longrightarrow> (\<exists>st'. run chi2 rlgamma st a n
                 = Inr (\<not> (fail st2 \<or> dof < 1
                           \<or> list_ex (\<lambda>(x, y). x = 0 \<and> y \<noteq> 0) (zip e' h'))
                        \<and> (case g of
                              Fin r \<Rightarrow> \<not> (1 - r < 1 - (1 - a) powr (1 / of_int n))
                            | PosInf \<Rightarrow> False | NegInf \<Rightarrow> False | NaN \<Rightarrow> False), st')))
    \<and> (\<exists>l. sidak_level (5 / 100) 2 = Inr (RealLevel l) \<and> l = 1 - sqrt (95 / 100)
           \<and> \<bar>l - 253 / 10000\<bar> < 1 / 10000)"
proof (intro conjI allI impI)
  show lvl: "sidak_level a n = Inr (RealLevel (1 - (1 - a) powr (1 / of_int n)))"
    using assms by (rule sidak_level_unit)
  show "\<exists>l. sidak_level (5 / 100) 2 = Inr (RealLevel l) \<and> l = 1 - sqrt (95 / 100)
           \<and> \<bar>l - 253 / 10000\<bar> < 1 / 10000"
  proof -
    have "sidak_level (5 / 100) 2 = Inr (RealLevel (1 - (1 - 5 / 100) powr (1 / of_int 2)))"
      by (rule sidak_level_unit) simp_all
    moreover have "(1 - 5 / 100 :: real) powr (1 / of_int 2) = sqrt (95 / 100)"
      by (simp add: powr_half_sqrt)
    ultimately show ?thesis using sqrt_95_bounds by simp
  qed
next
  fix chi2 :: "real list \<Rightarrow> real list \<Rightarrow> real \<Rightarrow> pyfloat \<times> int \<times> int \<times> int"
    and rlgamma :: "real \<Rightarrow> pyfloat \<Rightarrow> error + pyfloat"
    and st st2 :: "'p chi_square_test" and e h e' h' c dof pin pout g
  assume a: "ensure_tables st = Inr st2 \<and> pdf st2 = Some e \<and> histogram st2 = Some h
         \<and> gather e (sorted_index e) = Inr e' \<and> gather h (sorted_index e) = Inr h'
         \<and> chi2 h' e' 5 = (c, dof, pin, pout)
         \<and> rlgamma (of_int dof / 2)
              (case c of Fin r \<Rightarrow> Fin (r / 2) | PosInf \<Rightarrow> PosInf | NegInf \<Rightarrow> NegInf | NaN \<Rightarrow> NaN)
             = Inr g
         \<and> unat (fst (res st2)) * unat (snd (res st2)) \<le> length e
         \<and> unat (fst (res st2)) * unat (snd (res st2)) \<le> length h"
  have "\<exists>st'. run chi2 rlgamma st a n
           = Inr (\<not> (fail st2 \<or> dof < 1 \<or> zero_expected e' h')
                   \<and> \<not> float_less (one_minus g) (1 - (1 - a) powr (1 / of_int n))
                   \<and> isfinite (one_minus g), st')"
    by (rule run_eval [where e = e and h = h and c = c and pin = pin and pout = pout])
       (use a sidak_level_unit [OF assms] in \<open>simp_all add: halve_case\<close>)
  then show "\<exists>st'. run chi2 rlgamma st a n
                 = Inr (\<not> (fail st2 \<or> dof < 1
                           \<or> list_ex (\<lambda>(x, y). x = 0 \<and> y \<noteq> 0) (zip e' h'))
                        \<and> (case g of
                              Fin r \<Rightarrow> \<not> (1 - r < 1 - (1 - a) powr (1 / of_int n))
                            | PosInf \<Rightarrow> False | NegInf \<Rightarrow> False | NaN \<Rightarrow> False), st')"
    unfolding zero_expected_def accept_case [symmetric] by (simp add: conj_assoc)
qed

lemma sidak_level_half:
  "(1 - 1 / 20 :: real) powr (1 / of_int 2) = sqrt (95 / 100)"
  by (simp add: powr_half_sqrt)

theorem sidak_correction_witness:
  "0 < (1 / 20 :: real) \<and> (1 / 20 :: real) < 1 \<and> (1 :: int) \<le> 2
   \<and> sidak_level (1 / 20) 2 = Inr (RealLevel (1 - sqrt (95 / 100)))
   \<and> (\<exists>st'. run (chi2_of (99 / 50) 2) product_rlgamma (example_test [10, 20, 30] [12, 18, 30])
               (1 / 20) 2 = Inr (False, st'))
   \<and> (\<exists>st'. run (chi2_of (97 / 50) 2) product_rlgamma (example_test [10, 20, 30] [12, 18, 30])
               (1 / 20) 2 = Inr (True, st'))"
proof -
  have h: "0 < (1 / 20 :: real)" "(1 / 20 :: real) < 1" "(1 :: int) \<le> 2" by simp_all
  note t = sidak_correction [OF h, where ?'p = real]
  have l: "sidak_level (1 / 20) 2 = Inr (RealLevel (1 - sqrt (95 / 100)))"
    using t sidak_level_half by simp
  have pre: "ensure_tables (example_test [10, 20, 30] [12, 18, 30])
         = Inr (example_test [10, 20, 30] [12, 18, 30])
     \<and> pdf (example_test [10, 20, 30] [12, 18, 30]) = Some [10, 20, 30]
     \<and> histogram (example_test [10, 20, 30] [12, 18, 30]) = Some [12, 18, 30]
     \<and> gather [10, 20, 30] (sorted_index [10, 20, 30]) = Inr [10, 20, 30]
     \<and> gather [12, 18, 30] (sorted_index [10, 20, 30]) = Inr [12, 18, 30]
     \<and> chi2_of x 2 [12, 18, 30] [10, 20, 30] 5 = (Fin x, 2, 0, 0)
     \<and> product_rlgamma (of_int 2 / 2)
          (case Fin x of Fin r \<Rightarrow> Fin (r / 2) | PosInf \<Rightarrow> PosInf | NegInf \<Rightarrow> NegInf | NaN \<Rightarrow> NaN)
         = Inr (Fin (x / 2))
     \<and> unat (fst (res (example_test [10, 20, 30] [12, 18, 30])))
          * unat (snd (res (example_test [10, 20, 30] [12, 18, 30]))) \<le> length [10, 20, 30 :: real]
     \<and> unat (fst (res (example_test [10, 20, 30] [12, 18, 30])))
          * unat (snd (res (example_test [10, 20, 30] [12, 18, 30]))) \<le> length [12, 18, 30 :: real]"
    for x
    by (simp add: example_tables sorted_index_example gather_example chi2_of_def
        product_rlgamma_def)
  have run: "\<exists>st'. run (chi2_of x 2) product_rlgamma (example_test [10, 20, 30] [12, 18, 30])
                 (1 / 20) 2
       = Inr (\<not> (fail (example_test [10, 20, 30] [12, 18, 30]) \<or> (2 :: int) < 1
                  \<or> list_ex (\<lambda>(x, y). x = 0 \<and> y \<noteq> 0) (zip [10, 20, 30 :: real] [12, 18, 30 :: real]))
               \<and> (case Fin (x / 2) of
                     Fin r \<Rightarrow> \<not> (1 - r < 1 - (1 - 1 / 20) powr (1 / of_int 2))
                   | PosInf \<Rightarrow> False | NegInf \<Rightarrow> False | NaN \<Rightarrow> False), st')" for x
    using t pre [of x] by blast
  have rej: "\<exists>st'. run (chi2_of (99 / 50) 2) product_rlgamma
      (example_test [10, 20, 30] [12, 18, 30]) (1 / 20) 2 = Inr (False, st')"
    using run [of "99 / 50"] sqrt_95_bounds unfolding sidak_level_half by simp
  have acc: "\<exists>st'. run (chi2_of (97 / 50) 2) product_rlgamma
      (example_test [10, 20, 30] [12, 18, 30]) (1 / 20) 2 = Inr (True, st')"
    using run [of "97 / 50"] sqrt_95_bounds unfolding sidak_level_half
    by (simp add: example_tables)
  show ?thesis using h l rej acc by blast
qed

text \<open>
  C4. When \<open>run\<close> returns, \<open>p_value\<close> is \<open>1 - rlgamma(dof / 2, chi2val / 2)\<close> for the
  statistic \<open>chi2val\<close> and the degrees of freedom \<open>dof\<close> that \<open>chi2\<close> returned on the two
  tables sorted by expected frequency, with the threshold 5.
\<close>

theorem p_value_formula:
  assumes "run chi2 rlgamma st a n = Inr (b, st')"
  shows "\<exists>st2 e h e' h' c dof pin pout g.
           ensure_tables st = Inr st2 \<and> pdf st2 = Some e \<and> histogram st2 = Some h
         \<and> gather e (sorted_index e) = Inr e' \<and> gather h (sorted_index e) = Inr h'
         \<and> chi2 h' e' 5 = (c, dof, pin, pout)
         \<and> rlgamma (of_int dof / 2)
              (case c of Fin r \<Rightarrow> Fin (r / 2) | PosInf \<Rightarrow> PosInf | NegInf \<Rightarrow> NegInf | NaN \<Rightarrow> NaN)
             = Inr g
         \<and> p_value st'
             = Some (case g of Fin r \<Rightarrow> Fin (1 - r) | PosInf \<Rightarrow> NegInf | NegInf \<Rightarrow> PosInf
                     | NaN \<Rightarrow> NaN)"
proof -
  obtain st2 e h e' h' c dof pin pout g lv where
    "ensure_tables st = Inr st2" and "pdf st2 = Some e" and "histogram st2 = Some h"
    and "gather e (sorted_index e) = Inr e'" and "gather h (sorted_index e) = Inr h'"
    and "chi2 h' e' 5 = (c, dof, pin, pout)"
    and "rlgamma (of_int dof / 2) (halve c) = Inr g"
    and "sidak_level a n = Inr lv"
    and "p_value st' = Some (one_minus g)"
    and "fail st' = (fail st2 \<or> dof < 1 \<or> zero_expected e' h')"
    and "b = (\<not> fail st' \<and> (\<exists>l. lv = RealLevel l \<and> \<not> float_less (one_minus g) l) \<and> isfinite (one_minus g))"
    and "pdf st' = Some e" and "histogram st' = Some h"
    and "fail st' \<or> (\<exists>l. lv = RealLevel l)"
    by (rule run_cases [OF assms])
  then show ?thesis unfolding halve_case one_minus_case by blast
qed

lemma example_run_accept:
  "\<exists>st'. run (chi2_of (1 / 2) 2) product_rlgamma (example_test [10, 20, 30] [12, 18, 30])
            (1 / 20) 1 = Inr (True, st')"
proof -
  have "\<exists>st'. run (chi2_of (1 / 2) 2) product_rlgamma (example_test [10, 20, 30] [12, 18, 30])
            (1 / 20) 1
     = Inr (\<not> (fail (example_test [10, 20, 30] [12, 18, 30]) \<or> (2 :: int) < 1
                  \<or> zero_expected [10, 20, 30] [12, 18, 30])
             \<and> \<not> float_less (one_minus (Fin (1 / 4))) (1 / 20)
             \<and> isfinite (one_minus (Fin (1 / 4))), st')"
    by (rule run_eval [where e = "[10, 20, 30]" and h = "[12, 18, 30]" and c = "Fin (1 / 2)"
          and pin = 0 and pout = 0])
       (simp_all add: example_tables sorted_index_example gather_example chi2_of_def
          product_rlgamma_def sidak_level_one)
  then show ?thesis by (simp add: example_tables zero_expected_def)
qed

theorem p_value_formula_witness:
  "\<exists>st'. run (chi2_of (1 / 2) 2) product_rlgamma (example_test [10, 20, 30] [12, 18, 30])
            (1 / 20) 1 = Inr (True, st')
     \<and> chi2_of (1 / 2) 2 [12, 18, 30] [10, 20, 30] 5 = (Fin (1 / 2), 2, 0, 0)
     \<and> product_rlgamma (of_int 2 / 2) (Fin (1 / 4)) = Inr (Fin (1 / 4))
     \<and> p_value st' = Some (Fin (3 / 4))"
proof -
  from example_run_accept obtain st' where
    r: "run (chi2_of (1 / 2) 2) product_rlgamma (example_test [10, 20, 30] [12, 18, 30])
          (1 / 20) 1 = Inr (True, st')"
    by blast
  from p_value_formula [OF r] have "p_value st' = Some (Fin (3 / 4))"
    by (auto simp: chi2_of_def product_rlgamma_def)
  with r show ?thesis by (simp add: chi2_of_def product_rlgamma_def)
qed

subsection \<open>The domain adapters\<close>

lemma cos_one_pos: "0 < cos (1 :: real)"
proof -
  have "\<bar>sin (1 / 2 :: real)\<bar> \<le> 1 / 2" using abs_sin_x_le_abs_x [of "1 / 2"] by simp
  then have "(sin (1 / 2 :: real))\<^sup>2 \<le> (1 / 2)\<^sup>2"
    by (simp add: power2_le_iff_abs_le)
  moreover have "cos (1 :: real) = 1 - 2 * (sin (1 / 2))\<^sup>2"
    using cos_double_sin [of "1 / 2 :: real"] by simp
  ultimately show ?thesis by (simp add: power2_eq_square)
qed

lemma pi_neq_two: "pi \<noteq> 2"
proof
  assume "pi = 2"
  then have "cos (1 :: real) = cos (pi / 2)" by simp
  then show False using cos_one_pos by simp
qed


text \<open>
  C7, as stated, fails for \<open>SphericalDomain\<close>: \<open>aspect()\<close> is 2, the width/height ratio of
  its bounds is \<open>pi\<close>.
\<close>

theorem spherical_aspect_counterexample:
  "aspect SphericalDomain \<noteq> fst (extents (bounds SphericalDomain)) / snd (extents (bounds SphericalDomain))"
  using pi_neq_two by (simp add: SphericalDomain_def extents_def)

text \<open>
  C7, amended. For a \<open>PlanarDomain\<close> with valid bounds \<open>aspect()\<close> is positive and equals
  the width/height ratio of \<open>bounds()\<close>; for \<open>SphericalDomain\<close> \<open>aspect()\<close> is the positive
  constant 2, while the ratio of its bounds is \<open>pi\<close>.
\<close>

theorem adapter_aspect:
  "(fst (bmin b) < fst (bmax b) \<and> snd (bmin b) < snd (bmax b) \<longrightarrow>
      0 < aspect (PlanarDomain b)
      \<and> aspect (PlanarDomain b)
          = fst (extents (bounds (PlanarDomain b))) / snd (extents (bounds (PlanarDomain b))))
   \<and> aspect SphericalDomain = 2
   \<and> fst (extents (bounds SphericalDomain)) / snd (extents (bounds SphericalDomain)) = pi"
  by (simp add: PlanarDomain_def SphericalDomain_def extents_def Let_def)

theorem adapter_aspect_witness:
  "fst (bmin default_planar_bounds) < fst (bmax default_planar_bounds)
   \<and> snd (bmin default_planar_bounds) < snd (bmax default_planar_bounds)
   \<and> aspect (PlanarDomain default_planar_bounds) = 1"
  using adapter_aspect [of default_planar_bounds]
  by (simp add: default_planar_bounds_def extents_def PlanarDomain_def)

lemma cos_neg_upper: assumes "pi / 2 < x" and "x < pi" shows "cos x < 0"
proof -
  have "0 < cos (x - pi)" by (rule cos_gt_zero_pi) (use assms in simp_all)
  then show ?thesis by simp
qed

lemma cos_neg_lower: assumes "- pi < x" and "x < - (pi / 2)" shows "cos x < 0"
proof -
  have "0 < cos (x + pi)" by (rule cos_gt_zero_pi) (use assms in simp_all)
  then show ?thesis by simp
qed

lemma sin_neg_lower: assumes "- pi < x" and "x < 0" shows "sin x < 0"
proof -
  have "0 < sin (- x)" by (rule sin_gt_zero) (use assms in simp_all)
  then show ?thesis by simp
qed

lemma atan2_sin_cos:
  assumes "- pi < x" and "x < pi"
  shows "atan2 (sin x) (cos x) = x"
proof -
  consider "x < - (pi / 2)" | "x = - (pi / 2)" | "- (pi / 2) < x \<and> x < pi / 2"
    | "x = pi / 2" | "pi / 2 < x"
    by linarith
  then show ?thesis
  proof cases
    case 1
    have c: "cos x < 0" using assms(1) 1 by (rule cos_neg_lower)
    have s: "sin x < 0" by (rule sin_neg_lower) (use assms 1 in simp_all)
    have "arctan (tan (x + pi)) = x + pi" by (rule arctan_tan) (use assms 1 in simp_all)
    then have "arctan (sin x / cos x) = x + pi" by (simp add: tan_def)
    then show ?thesis using c s by (simp add: atan2_def)
  next
    case 2
    show ?thesis unfolding 2 by (simp add: atan2_def)
  next
    case 3
    then have c: "0 < cos x" by (simp add: cos_gt_zero_pi)
    have "arctan (tan x) = x" by (rule arctan_tan) (use 3 in simp_all)
    then show ?thesis using c by (simp add: atan2_def tan_def)
  next
    case 4
    show ?thesis unfolding 4 by (simp add: atan2_def)
  next
    case 5
    have c: "cos x < 0" using 5 assms(2) by (rule cos_neg_upper)
    have s: "0 < sin x" by (rule sin_gt_zero) (use assms 5 in simp_all)
    have "arctan (tan (x - pi)) = x - pi" by (rule arctan_tan) (use assms 5 in simp_all)
    moreover have "tan (x - pi) = tan x" using tan_periodic_pi [of "x - pi"] by simp
    ultimately have "arctan (sin x / cos x) = x - pi" by (simp add: tan_def)
    then show ?thesis using c s by (simp add: atan2_def)
  qed
qed

lemma atan2_scale:
  assumes "0 < s"
  shows "atan2 (b * s) (a * s) = atan2 b a"
proof -
  have 1: "(0 < a * s) = (0 < a)" "(a * s < 0) = (a < 0)"
    "(0 < b * s) = (0 < b)" "(b * s < 0) = (b < 0)" "(0 \<le> b * s) = (0 \<le> b)"
    using assms by (simp_all add: zero_less_mult_iff mult_less_0_iff zero_le_mult_iff)
  have 2: "b * s / (a * s) = b / a" using assms by simp
  show ?thesis unfolding atan2_def 1 2 ..
qed

text \<open>
  C8. For a point \<open>p\<close> strictly inside \<open>(-pi, pi) \<times> (-1, 1)\<close>,
  \<open>SphericalDomain.map_backward(SphericalDomain.map_forward(p))\<close> is \<open>p\<close>: in exact
  arithmetic the round trip is the identity.
\<close>

theorem spherical_round_trip:
  assumes "- pi < fst p" and "fst p < pi" and "- 1 < snd p" and "snd p < 1"
  shows "map_backward SphericalDomain (map_forward SphericalDomain p) = p"
proof -
  obtain x y where p: "p = (x, y)" by (cases p)
  have "\<bar>y\<bar> < 1" using assms(3,4) p by (simp add: abs_less_iff)
  then have "y\<^sup>2 < 1" by (simp only: abs_square_less_1)
  then have yy: "y * y < 1" by (simp only: power2_eq_square)
  then have pos: "0 < sqrt (1 - y * y)" by simp
  have f: "map_forward SphericalDomain p
             = (cos x * sqrt (1 - y * y), sin x * sqrt (1 - y * y), - y)"
    using yy
    by (simp add: SphericalDomain_def spherical_map_forward_def p safe_sqrt_def fnmadd_def
        sincos_def Let_def max_def)
  have "atan2 (sin x * sqrt (1 - y * y)) (cos x * sqrt (1 - y * y)) = x"
    using atan2_scale [OF pos] atan2_sin_cos assms(1,2) p by simp
  then show ?thesis
    unfolding f by (simp add: SphericalDomain_def spherical_map_backward_def p)
qed

theorem spherical_round_trip_witness:
  "- pi < fst (0 :: real, 0 :: real) \<and> fst (0 :: real, 0 :: real) < pi
   \<and> - 1 < snd (0 :: real, 0 :: real) \<and> snd (0 :: real, 0 :: real) < 1
   \<and> map_forward SphericalDomain (0, 0) = (1, 0, 0)
   \<and> map_backward SphericalDomain (1, 0, 0) = (0, 0)"
proof -
  have f: "map_forward SphericalDomain (0, 0) = (1, 0, 0)"
    by (simp add: SphericalDomain_def spherical_map_forward_def safe_sqrt_def fnmadd_def
        sincos_def Let_def)
  have "map_backward SphericalDomain (map_forward SphericalDomain (0, 0)) = (0, 0)"
    by (rule spherical_round_trip) simp_all
  then show ?thesis using f by simp
qed

subsection \<open>The histogram indices\<close>

lemma unat_lt_32: "unat (w :: 32 word) < 2 ^ 32"
  using unsigned_less [of w, where ?'a = nat] by simp

lemma unat_word_of_nat_32: "n < 2 ^ 32 \<Longrightarrow> unat (word_of_nat n :: 32 word) = n"
  by (simp add: unat_of_nat)

lemma unat_pred: "0 < unat (r :: 32 word) \<Longrightarrow> unat (r - 1) = unat r - 1"
  by (metis One_nat_def Suc_leI unat_1 unat_sub word_le_nat_alt)

lemma clamp_bounds: "0 \<le> hi \<Longrightarrow> 0 \<le> clamp v 0 hi \<and> clamp v 0 hi \<le> hi"
  by (simp add: clamp_def)

lemma unat_float_to_uint32:
  assumes "0 \<le> v" and "v \<le> real n" and "n < 2 ^ 32"
  shows "unat (float_to_uint32 v) \<le> n"
proof -
  have f: "0 \<le> \<lfloor>v\<rfloor>" using assms(1) by simp
  have "\<lfloor>v\<rfloor> \<le> int n" using assms(2) by (simp add: floor_le_iff)
  then have le: "nat \<lfloor>v\<rfloor> \<le> n" using f by linarith
  have "float_to_uint32 v = word_of_nat (nat \<lfloor>v\<rfloor>)"
    using assms(1) f by (simp add: float_to_uint32_def py_int_def)
  moreover have "unat (word_of_nat (nat \<lfloor>v\<rfloor>) :: 32 word) = nat \<lfloor>v\<rfloor>"
    using le assms(3) by (simp add: unat_word_of_nat_32)
  ultimately show ?thesis using le by simp
qed

lemma float32_of_nat_exact: "n \<le> 2 ^ 24 \<Longrightarrow> float32_of_nat n = n"
proof (cases "n < 2 ^ 24")
  case True
  then show ?thesis by (simp add: float32_of_nat_def float32_exponent_def)
next
  case False
  assume "n \<le> 2 ^ 24"
  with False have "n = 2 ^ 24" by simp
  then show ?thesis by (simp add: float32_of_nat_def float32_exponent_def)
qed

lemma cell_coords_bounds:
  assumes "0 < unat (fst r)" and "0 < unat (snd r)"
    and "unat (fst r) \<le> 2 ^ 24" and "unat (snd r) \<le> 2 ^ 24"
  shows "unat (fst (cell_coords b r xy)) \<le> unat (fst r) - 1"
    and "unat (snd (cell_coords b r xy)) \<le> unat (snd r) - 1"
proof -
  have lt: "unat (fst r) - 1 < 2 ^ 32" "unat (snd r) - 1 < 2 ^ 32"
    using unat_lt_32[of "fst r"] unat_lt_32[of "snd r"] by linarith+
  have ex: "float32_of_nat (unat (fst r) - 1) = unat (fst r) - 1"
    "float32_of_nat (unat (snd r) - 1) = unat (snd r) - 1"
    using assms(3,4) by (simp_all add: float32_of_nat_exact)
  show "unat (fst (cell_coords b r xy)) \<le> unat (fst r) - 1"
    unfolding cell_coords_def Let_def fst_conv unat_pred[OF assms(1)] ex
    by (rule unat_float_to_uint32) (use lt in \<open>simp_all add: clamp_bounds\<close>)
  show "unat (snd (cell_coords b r xy)) \<le> unat (snd r) - 1"
    unfolding cell_coords_def Let_def snd_conv unat_pred[OF assms(2)] ex
    by (rule unat_float_to_uint32) (use lt in \<open>simp_all add: clamp_bounds\<close>)
qed

lemma index_in_range:
  assumes "0 < unat (fst r)" and "0 < unat (snd r)"
    and "unat (fst r) \<le> 2 ^ 24" and "unat (snd r) \<le> 2 ^ 24"
    and "unat (fst r) * unat (snd r) < 2 ^ 32"
  shows "unat (cell_index r (cell_coords b r xy)) < histogram_size r"
proof -
  let ?c = "cell_coords b r xy"
  let ?rx = "unat (fst r)" and ?ry = "unat (snd r)"
  have cx: "unat (fst ?c) \<le> ?rx - 1" and cy: "unat (snd ?c) \<le> ?ry - 1"
    using cell_coords_bounds[OF assms(1-4)] by blast+
  have "unat (snd ?c) * ?rx \<le> (?ry - 1) * ?rx" using cy by simp
  then have "unat (fst ?c) + unat (snd ?c) * ?rx \<le> (?rx - 1) + (?ry - 1) * ?rx"
    using cx by linarith
  also have "\<dots> = ?rx * ?ry - 1" using assms(1,2)
    by (cases ?rx; cases ?ry) (simp_all add: algebra_simps)
  finally have le: "unat (fst ?c) + unat (snd ?c) * ?rx \<le> ?rx * ?ry - 1" .
  have pos: "0 < ?rx * ?ry" using assms(1,2) by simp
  have "unat (cell_index r ?c) \<le> unat (fst ?c) + unat (snd ?c) * ?rx"
    unfolding cell_index_def by (simp add: unat_word_ariths)
  moreover have "histogram_size r = ?rx * ?ry"
    using assms(5) by (simp add: histogram_size_def unat_word_ariths)
  ultimately show ?thesis using le pos by linarith
qed

lemma scatter_add_in_range:
  "\<forall>i \<in> set idx. i < length target \<Longrightarrow> \<exists>t. scatter_add target (zip idx ws) = Inr t \<and> length t = length target"
proof (induction idx arbitrary: target ws)
  case Nil
  then show ?case by simp
next
  case (Cons i idx)
  show ?case
  proof (cases ws)
    case Nil
    then show ?thesis by simp
  next
    case (Cons w ws')
    have "\<exists>t. scatter_add (target[i := target ! i + w]) (zip idx ws') = Inr t
            \<and> length t = length (target[i := target ! i + w])"
      by (rule Cons.IH) (use Cons.prems in simp)
    then show ?thesis using Cons Cons.prems by simp
  qed
qed


lemma tabulate_histogram_scatter_error:
  "scatter_add (replicate (histogram_size (res st)) 0)
     (zip (scatter_indices st (fst (drawn_samples st))) (snd (drawn_samples st))) = Inl e
   \<Longrightarrow> tabulate_histogram st = Inl e"
  by (cases "drawn_samples st") (simp add: tabulate_histogram_def Let_def bind_result_def)

lemma tabulate_histogram_scatter_ok:
  "scatter_add (replicate (histogram_size (res st)) 0)
     (zip (scatter_indices st (fst (drawn_samples st))) (snd (drawn_samples st))) = Inr t
   \<Longrightarrow> tabulate_histogram st \<noteq> Inl OutOfBounds"
  by (cases "drawn_samples st") (simp add: tabulate_histogram_def Let_def bind_result_def)

lemma float32_rounds_up:
  "float32_of_nat 33554439 = 33554440" "float32_of_nat 33554438 = 33554440"
  by (simp_all add: float32_of_nat_def float32_exponent_def Let_def)

text \<open>
  C10, as stated, fails in two ways. When \<open>res - 1\<close> is not a single-precision float
  the clamp bound is rounded: for \<open>res = 33554439\<close> on the line, \<open>res - 1 = 2^25 + 6\<close>
  becomes \<open>2^25 + 8\<close>, and the sample on the upper bound is scattered to the index
  \<open>33554440\<close> of a histogram of \<open>33554439\<close> entries. When the product of the resolutions
  leaves the 32-bit range the length wraps: for \<open>res = (65537, 65537)\<close> the histogram
  has \<open>65537 * 65537 mod 2^32 = 131073\<close> entries, and the sample at \<open>(0, 2)\<close> is
  scattered to the index \<open>131074\<close>.
\<close>

theorem histogram_index_counterexample:
  "init (LineDomain (- 1) 1) upper_sample unit_density no_variates 1 1 33554439 2
     = Inr rounding_test
   \<and> scatter_indices rounding_test [1] = [33554440]
   \<and> histogram_size (res rounding_test) = 33554439
   \<and> tabulate_histogram rounding_test = Inl OutOfBounds
   \<and> init (PlanarDomain overflow_bounds) one_sample unit_density no_variates 2 1 65537 2
     = Inr overflow_test
   \<and> scatter_indices overflow_test [(0, 2)] = [131074]
   \<and> histogram_size (res overflow_test) = 131073
   \<and> tabulate_histogram overflow_test = Inl OutOfBounds"
proof (intro conjI)
  show "init (LineDomain (- 1) 1) upper_sample unit_density no_variates 1 1 33554439 2
     = Inr rounding_test"
    by (simp add: init_def rounding_test_def LineDomain_def bind_result_def to_uint32_def
        py_int_def Let_def)
  have p: "(33554439 :: 32 word) - 1 = 33554438" by simp
  show i: "scatter_indices rounding_test [1] = [33554440]"
    by (simp add: scatter_indices_def rounding_test_def LineDomain_def extents_def
        cell_coords_def cell_index_def clamp_def float_to_uint32_def py_int_def Let_def p
        float32_rounds_up float32_of_nat_exact)
  show h: "histogram_size (res rounding_test) = 33554439"
    by (simp add: histogram_size_def rounding_test_def)
  have d: "drawn_samples rounding_test = ([1], [1])"
    by (simp add: drawn_samples_def rounding_test_def upper_sample_def)
  have "scatter_add (replicate (histogram_size (res rounding_test)) 0)
          (zip (scatter_indices rounding_test (fst (drawn_samples rounding_test)))
               (snd (drawn_samples rounding_test))) = Inl OutOfBounds"
    unfolding d fst_conv snd_conv i h by simp
  then show "tabulate_histogram rounding_test = Inl OutOfBounds"
    by (rule tabulate_histogram_scatter_error)
next
  show "init (PlanarDomain overflow_bounds) one_sample unit_density no_variates 2 1 65537 2
     = Inr overflow_test"
    by (simp add: init_def overflow_test_def PlanarDomain_def overflow_bounds_def extents_def
        bind_result_def to_uint32_def py_int_def Let_def)
  have p: "(65537 :: 32 word) - 1 = 65536" by simp
  have e: "float32_of_nat 65537 = 65537" "float32_of_nat 65536 = 65536"
    by (simp_all add: float32_of_nat_exact)
  show i: "scatter_indices overflow_test [(0, 2)] = [131074]"
    by (simp add: scatter_indices_def overflow_test_def PlanarDomain_def overflow_bounds_def
        extents_def cell_coords_def cell_index_def clamp_def float_to_uint32_def py_int_def
        Let_def p e)
  show h: "histogram_size (res overflow_test) = 131073"
    by (simp add: histogram_size_def overflow_test_def)
  have d: "drawn_samples overflow_test = ([(0, 2)], [1])"
    by (simp add: drawn_samples_def overflow_test_def one_sample_def)
  have "scatter_add (replicate (histogram_size (res overflow_test)) 0)
          (zip (scatter_indices overflow_test (fst (drawn_samples overflow_test)))
               (snd (drawn_samples overflow_test))) = Inl OutOfBounds"
    unfolding d fst_conv snd_conv i h by simp
  then show "tabulate_histogram overflow_test = Inl OutOfBounds"
    by (rule tabulate_histogram_scatter_error)
qed

text \<open>
  C10, amended. When both resolutions are at least 1 and at most \<open>2^24\<close> (so that
  \<open>res\<close> and \<open>res - 1\<close> are single-precision floats) and their product is below \<open>2^32\<close>,
  every position, however far outside the bounds, is clamped per axis into
  \<open>[0, res - 1]\<close>, every index passed to the scatter-add is below the length of the
  histogram, and \<open>tabulate_histogram\<close> never writes outside the histogram.
\<close>

theorem histogram_index_in_range:
  assumes "0 < unat (fst (res st))" and "0 < unat (snd (res st))"
    and "unat (fst (res st)) \<le> 2 ^ 24" and "unat (snd (res st)) \<le> 2 ^ 24"
    and "unat (fst (res st)) * unat (snd (res st)) < 2 ^ 32"
  shows "unat (fst (cell_coords (test_bounds st) (res st) xy)) \<le> unat (fst (res st)) - 1
       \<and> unat (snd (cell_coords (test_bounds st) (res st) xy)) \<le> unat (snd (res st)) - 1
       \<and> unat (cell_index (res st) (cell_coords (test_bounds st) (res st) xy))
            < histogram_size (res st)
       \<and> list_all (\<lambda>i. i < histogram_size (res st)) (scatter_indices st positions)
       \<and> tabulate_histogram st \<noteq> Inl OutOfBounds"
proof (intro conjI)
  show "unat (fst (cell_coords (test_bounds st) (res st) xy)) \<le> unat (fst (res st)) - 1"
    and "unat (snd (cell_coords (test_bounds st) (res st) xy)) \<le> unat (snd (res st)) - 1"
    using cell_coords_bounds [OF assms(1-4)] by blast+
  show "unat (cell_index (res st) (cell_coords (test_bounds st) (res st) xy))
            < histogram_size (res st)"
    using assms by (rule index_in_range)
  show all: "list_all (\<lambda>i. i < histogram_size (res st)) (scatter_indices st ps)" for ps
    unfolding scatter_indices_def list_all_iff using index_in_range [OF assms] by auto
  show "tabulate_histogram st \<noteq> Inl OutOfBounds"
  proof -
    have "\<forall>i \<in> set (scatter_indices st (fst (drawn_samples st))).
            i < length (replicate (histogram_size (res st)) (0 :: real))"
      using all [of "fst (drawn_samples st)"] by (simp add: list_all_iff)
    then obtain t where "scatter_add (replicate (histogram_size (res st)) 0)
        (zip (scatter_indices st (fst (drawn_samples st))) (snd (drawn_samples st))) = Inr t"
      using scatter_add_in_range by blast
    then show ?thesis by (rule tabulate_histogram_scatter_ok)
  qed
qed

theorem histogram_index_in_range_witness:
  "0 < unat (fst (res (example_test [10, 20, 30] [12, 18, 30])))
   \<and> 0 < unat (snd (res (example_test [10, 20, 30] [12, 18, 30])))
   \<and> unat (fst (res (example_test [10, 20, 30] [12, 18, 30]))) \<le> 2 ^ 24
   \<and> unat (snd (res (example_test [10, 20, 30] [12, 18, 30]))) \<le> 2 ^ 24
   \<and> unat (fst (res (example_test [10, 20, 30] [12, 18, 30])))
       * unat (snd (res (example_test [10, 20, 30] [12, 18, 30]))) < 2 ^ 32
   \<and> scatter_indices (example_test [10, 20, 30] [12, 18, 30]) [1000, - 1000, 0] = [2, 0, 1]
   \<and> histogram_size (res (example_test [10, 20, 30] [12, 18, 30])) = 3
   \<and> list_all (\<lambda>i. i < histogram_size (res (example_test [10, 20, 30] [12, 18, 30])))
        (scatter_indices (example_test [10, 20, 30] [12, 18, 30]) [1000, - 1000, 0])
   \<and> tabulate_histogram (example_test [10, 20, 30] [12, 18, 30]) \<noteq> Inl OutOfBounds"
proof -
  have h: "0 < unat (fst (res (example_test [10, 20, 30] [12, 18, 30])))"
    "0 < unat (snd (res (example_test [10, 20, 30] [12, 18, 30])))"
    "unat (fst (res (example_test [10, 20, 30] [12, 18, 30]))) \<le> 2 ^ 24"
    "unat (snd (res (example_test [10, 20, 30] [12, 18, 30]))) \<le> 2 ^ 24"
    "unat (fst (res (example_test [10, 20, 30] [12, 18, 30])))
       * unat (snd (res (example_test [10, 20, 30] [12, 18, 30]))) < 2 ^ 32"
    by (simp_all add: example_test_def)
  have e: "float32_of_nat 3 = 3" "float32_of_nat 2 = 2" "float32_of_nat 1 = 1"
    "float32_of_nat 0 = 0"
    by (simp_all add: float32_of_nat_exact)
  have p: "(3 :: 32 word) - 1 = 2" by simp
  have i: "scatter_indices (example_test [10, 20, 30] [12, 18, 30]) [1000, - 1000, 0] = [2, 0, 1]"
    by (simp add: scatter_indices_def example_test_def LineDomain_def extents_def
        cell_coords_def cell_index_def clamp_def float_to_uint32_def py_int_def Let_def e p)
  have s: "histogram_size (res (example_test [10, 20, 30] [12, 18, 30])) = 3"
    by (simp add: histogram_size_def example_test_def)
  from histogram_index_in_range [OF h, of "(1000, 0)" "[1000, - 1000, 0]"] h i s
  show ?thesis by blast
qed

subsection \<open>The quadrature weights of \<open>tabulate_pdf\<close>\<close>

lemma replicate_ends:
  "2 \<le> n \<Longrightarrow> ((replicate n w)[0 := v])[n - 1 := v] = v # replicate (n - 2) w @ [v]"
proof -
  assume "2 \<le> n"
  then obtain m where n: "n = Suc (Suc m)" by (metis Suc_leD add_2_eq_Suc le_Suc_ex)
  have "(replicate (Suc m) w)[m := v] = replicate m w @ [v]"
    by (metis length_replicate list_update_length replicate_Suc replicate_append_same)
  then show ?thesis by (simp add: n)
qed

lemma quad_weights_eq:
  assumes "2 \<le> ir" and "0 < unat r"
  shows "quad_weights ir r =
     Inr (1 / (2 * (real_of_int (ir - 1) * real (unat r)))
          # replicate (nat ir - 2) (1 / (real_of_int (ir - 1) * real (unat r)))
          @ [1 / (2 * (real_of_int (ir - 1) * real (unat r)))])"
proof -
  define w where "w = 1 / real_of_int ((ir - 1) * uint r)"
  have w: "w = 1 / (real_of_int (ir - 1) * real (unat r))" by (simp add: w_def)
  have "r \<noteq> 0" using assms(2) by auto
  then have "uint r \<noteq> 0" by (simp add: uint_0_iff)
  then have nz: "(ir - 1) * uint r \<noteq> 0" using assms(1) by simp
  have n: "2 \<le> nat ir" using assms(1) by simp
  then have ne: "replicate (nat ir) w \<noteq> []" and w0: "replicate (nat ir) w ! 0 = w" by auto
  have "quad_weights ir r = Inr (((replicate (nat ir) w)[0 := w * 0.5])[nat ir - 1 := w * 0.5])"
    unfolding quad_weights_def Let_def w_def [symmetric] using nz ne w0 by simp
  also have "\<dots> = Inr (w * 0.5 # replicate (nat ir - 2) w @ [w * 0.5])"
    by (simp only: replicate_ends [OF n])
  finally show ?thesis by (simp add: w)
qed


subsection \<open>The sanity check on the density table\<close>

lemma unnormalised_grid:
  "meshgrid (cell_origins (- 1) 1 3) (cell_origins (- 1) 1 3)
     = [(- 1, - 1), (- 1 / 6, - 1), (2 / 3, - 1),
        (- 1, - 1 / 6), (- 1 / 6, - 1 / 6), (2 / 3, - 1 / 6),
        (- 1, 2 / 3), (- 1 / 6, 2 / 3), (2 / 3, 2 / 3)]"
  by (simp add: meshgrid_def cell_origins_def linspace_def fmadd_def upt_rec)

lemma integrate_cell_unit_density:
  "integrate_cell unnormalised_test (node_offsets 2 3) (node_offsets 2 3) [1 / 6, 1 / 6] [1 / 6, 1 / 6] c
     = 1 / 9"
  by (simp add: integrate_cell_def node_offsets_def linspace_def fmadd_def upt_rec
      unnormalised_test_def unit_density_def enumerate_eq_zip)


lemma quad_weights_2_3: "quad_weights 2 3 = Inr [1 / 6, 1 / 6]"
  using quad_weights_eq [of 2 3] by simp

text \<open>
  What \<open>tabulate_pdf\<close> stores and when it flags a failure: the stored table is the
  table of cell integrals scaled by \<open>sample_count\<close> times the area of the rectangle, and
  the flag is set when the unscaled integrals have a negative minimum or a sum above
  \<open>1.1 * sample_count\<close>.
\<close>

lemma tabulate_pdf_checks:
  assumes "tabulate_pdf st = Inr st'"
  shows "\<exists>wx wy. quad_weights (ires st) (fst (res st)) = Inr wx
           \<and> quad_weights (ires st) (snd (res st)) = Inr wy
           \<and> pdf st' = Some (map (\<lambda>v. v * (real (sample_count st)
                     * (fst (extents (test_bounds st)) * snd (extents (test_bounds st)))))
                  (cell_integrals st wx wy))
           \<and> fail st' = (fail st \<or> \<not> float_ge_zero (hmin (cell_integrals st wx wy))
                           \<or> 1.1 * real (sample_count st) < sum_list (cell_integrals st wx wy))"
  using assms
  by (auto simp: tabulate_pdf_def bind_result_def Let_def split: if_splits sum.splits)

text \<open>
  C6 at a concrete input. For the density that is 1 everywhere on \<open>[-1, 1]\<close> squared
  and one sample, the stored table sums to 4, which exceeds \<open>1.1 * sample_count = 1.1\<close>,
  and the failure flag is not set: the check of line 211 compares the sum of the
  unscaled integrals (here 1) with \<open>1.1 * sample_count\<close>.
\<close>

theorem pdf_sum_checked_before_scaling:
  "init (PlanarDomain default_planar_bounds) one_sample unit_density no_variates 2 1 3 2
     = Inr unnormalised_test
   \<and> tabulate_pdf unnormalised_test = Inr (unnormalised_test\<lparr> pdf := Some unnormalised_table \<rparr>)
   \<and> sum_list unnormalised_table = 4
   \<and> 1.1 * real (sample_count unnormalised_test) < sum_list unnormalised_table
   \<and> fail (unnormalised_test\<lparr> pdf := Some unnormalised_table \<rparr>) = False"
proof (intro conjI)
  show "init (PlanarDomain default_planar_bounds) one_sample unit_density no_variates 2 1 3 2
     = Inr unnormalised_test"
    by (simp add: init_def unnormalised_test_def PlanarDomain_def default_planar_bounds_def
        extents_def bind_result_def to_uint32_def py_int_def Let_def)
  have b: "test_bounds unnormalised_test = default_planar_bounds"
    and r: "res unnormalised_test = (3, 3)" and i: "ires unnormalised_test = 2"
    and n: "sample_count unnormalised_test = 1"
    by (simp_all add: unnormalised_test_def)
  show "tabulate_pdf unnormalised_test = Inr (unnormalised_test\<lparr> pdf := Some unnormalised_table \<rparr>)"
    unfolding tabulate_pdf_def cell_integrals_def b r i n Let_def
    by (simp add: default_planar_bounds_def unnormalised_grid quad_weights_2_3 bind_result_def
        integrate_cell_unit_density extents_def unnormalised_table_def)
  show "sum_list unnormalised_table = 4" by (simp add: unnormalised_table_def)
  show "1.1 * real (sample_count unnormalised_test) < sum_list unnormalised_table"
    by (simp add: unnormalised_table_def n)
  show "fail (unnormalised_test\<lparr> pdf := Some unnormalised_table \<rparr>) = False"
    by (simp add: unnormalised_test_def)
qed

subsection \<open>The quadrature nodes of \<open>tabulate_pdf\<close>\<close>

lemma cell_origins_default: "cell_origins (- 1) 1 3 = [- 1, - 1 / 6, 2 / 3]"
  by (simp add: cell_origins_def linspace_def fmadd_def upt_rec)

lemma node_offsets_2_3: "node_offsets 2 3 = [0, 1 / 3]"
  by (simp add: node_offsets_def linspace_def fmadd_def upt_rec)

lemma integrate_cell_linear_density:
  "integrate_cell linear_test [0, 1 / 3] [0, 1 / 3] [1 / 6, 1 / 6] [1 / 6, 1 / 6] (cx, cy)
     = (7 / 3 + 2 * cx) / 72"
  by (simp add: integrate_cell_def fmadd_def upt_rec linear_test_def linear_density_def
      PlanarDomain_def enumerate_eq_zip field_simps)

lemma cell_integrals_linear:
  "cell_integrals linear_test [1 / 6, 1 / 6] [1 / 6, 1 / 6]
     = [1 / 216, 1 / 36, 11 / 216, 1 / 216, 1 / 36, 11 / 216, 1 / 216, 1 / 36, 11 / 216]"
proof -
  have b: "test_bounds linear_test = default_planar_bounds"
    and r: "res linear_test = (3, 3)" and i: "ires linear_test = 2"
    by (simp_all add: linear_test_def)
  show ?thesis
    unfolding cell_integrals_def b r i Let_def
    by (simp add: default_planar_bounds_def unnormalised_grid node_offsets_2_3
        integrate_cell_linear_density)
qed

lemma float32_of_nat_small: "float32_of_nat 3 = 3" "float32_of_nat 2 = 2"
  by (simp_all add: float32_of_nat_exact)

lemma cell_coords_default:
  "cell_coords default_planar_bounds (3, 3) (- 1 / 2, - 1) = (0, 0)"
  "cell_coords default_planar_bounds (3, 3) (- 1 / 4, - 1) = (1, 0)"
  by (simp_all add: cell_coords_def default_planar_bounds_def extents_def Let_def
      float32_of_nat_small clamp_def float_to_uint32_def py_int_def)

text \<open>
  C5 at a concrete input. On the default planar box (width 2) with \<open>res = 3\<close> and
  \<open>ires = 2\<close> a histogram cell is \<open>2/3\<close> wide, and the first cell of an axis is
  \<open>[-1, -1/3]\<close>. \<open>tabulate_pdf\<close> takes the cell origins \<open>-1, -1/6, 2/3\<close>, the node offsets
  \<open>0, 1/3\<close> and weights that sum to \<open>1/3\<close>: it integrates the density over \<open>[-1, -2/3]\<close>,
  \<open>[-1/6, 1/6]\<close> and \<open>[2/3, 1]\<close>, not over the cells of the histogram, which put \<open>-1/2\<close>
  into the first cell and \<open>-1/4\<close> into the second. For the density \<open>(1 + x) / 4\<close> the
  stored table has \<open>1/54\<close> in the first cell, where the trapezoidal rule over the cell of
  the histogram gives \<open>1/27\<close>.
\<close>

theorem quadrature_nodes_ignore_extents:
  "init (PlanarDomain default_planar_bounds) one_sample linear_density no_variates 2 1 3 2
     = Inr linear_test
   \<and> cell_width (fst (bmin default_planar_bounds)) (fst (bmax default_planar_bounds)) 3 = 2 / 3
   \<and> cell_origins (fst (bmin default_planar_bounds)) (fst (bmax default_planar_bounds)) 3
       = [- 1, - 1 / 6, 2 / 3]
   \<and> node_offsets 2 3 = [0, 1 / 3]
   \<and> quad_weights 2 3 = Inr [1 / 6, 1 / 6]
   \<and> sum_list [1 / 6, 1 / 6 :: real] = 1 / 3
   \<and> cell_integrals linear_test [1 / 6, 1 / 6] [1 / 6, 1 / 6]
       = [1 / 216, 1 / 36, 11 / 216, 1 / 216, 1 / 36, 11 / 216, 1 / 216, 1 / 36, 11 / 216]
   \<and> tabulate_pdf linear_test = Inr (linear_test\<lparr> pdf := Some linear_table \<rparr>)
   \<and> linear_table ! 0 = 1 / 54
   \<and> cell_coords default_planar_bounds (3, 3) (- 1 / 2, - 1) = (0, 0)
   \<and> cell_coords default_planar_bounds (3, 3) (- 1 / 4, - 1) = (1, 0)
   \<and> (linear_density (- 1, - 1) + linear_density (- 1 / 3, - 1)) / 2
       * (cell_width (- 1) 1 3 * cell_width (- 1) 1 3) = 1 / 27"
proof (intro conjI)
  show "init (PlanarDomain default_planar_bounds) one_sample linear_density no_variates 2 1 3 2
     = Inr linear_test"
    by (simp add: init_def linear_test_def PlanarDomain_def default_planar_bounds_def
        extents_def bind_result_def to_uint32_def py_int_def Let_def)
  show "cell_width (fst (bmin default_planar_bounds)) (fst (bmax default_planar_bounds)) 3 = 2 / 3"
    by (simp add: cell_width_def default_planar_bounds_def)
  show "cell_origins (fst (bmin default_planar_bounds)) (fst (bmax default_planar_bounds)) 3
       = [- 1, - 1 / 6, 2 / 3]"
    by (simp add: default_planar_bounds_def cell_origins_default)
  show "node_offsets 2 3 = [0, 1 / 3]" by (rule node_offsets_2_3)
  show "quad_weights 2 3 = Inr [1 / 6, 1 / 6]" by (rule quad_weights_2_3)
  show "sum_list [1 / 6, 1 / 6 :: real] = 1 / 3" by simp
  show "cell_integrals linear_test [1 / 6, 1 / 6] [1 / 6, 1 / 6]
       = [1 / 216, 1 / 36, 11 / 216, 1 / 216, 1 / 36, 11 / 216, 1 / 216, 1 / 36, 11 / 216]"
    by (rule cell_integrals_linear)
  have r: "res linear_test = (3, 3)" and i: "ires linear_test = 2"
    and n: "sample_count linear_test = 1"
    and b: "test_bounds linear_test = default_planar_bounds"
    by (simp_all add: linear_test_def)
  show "tabulate_pdf linear_test = Inr (linear_test\<lparr> pdf := Some linear_table \<rparr>)"
    unfolding tabulate_pdf_def r i n b Let_def
    by (simp add: quad_weights_2_3 bind_result_def cell_integrals_linear
        default_planar_bounds_def extents_def linear_table_def)
  show "linear_table ! 0 = 1 / 54" by (simp add: linear_table_def)
  show "cell_coords default_planar_bounds (3, 3) (- 1 / 2, - 1) = (0, 0)"
    by (rule cell_coords_default)
  show "cell_coords default_planar_bounds (3, 3) (- 1 / 4, - 1) = (1, 0)"
    by (rule cell_coords_default)
  show "(linear_density (- 1, - 1) + linear_density (- 1 / 3, - 1)) / 2
       * (cell_width (- 1) 1 3 * cell_width (- 1) 1 3) = 1 / 27"
    by (simp add: linear_density_def cell_width_def)
qed

end
